theory Spec2Isabelle
  imports Complex_Main "HOL-Library.Word"
begin

section \<open>Data model shared by the two nodes\<close>

text \<open>
  The nodes of \<^verbatim>\<open>src/src/lib/LaserOdometry.cpp\<close> and
  \<^verbatim>\<open>src/src/lib/TransformMaintenance.cpp\<close> exchange ROS messages.  The model
  keeps the fields the two files read or write.

  \<^item> A \<^verbatim>\<open>ros::Time\<close> is a pair of unsigned seconds and nanoseconds; it is modelled
    by its total number of nanoseconds (\<^verbatim>\<open>toNSec()\<close>), a natural number.  The
    difference of two times is a \<^verbatim>\<open>ros::Duration\<close>, a signed number of nanoseconds.
  \<^item> The angles, quaternions and positions (\<^verbatim>\<open>float\<close> and \<^verbatim>\<open>double\<close> values)
    are modelled as real numbers, arithmetic on them as exact arithmetic.
  \<^item> The seconds of a duration, which \<^verbatim>\<open>hasNewData\<close> compares with 0.005, are
    modelled as the \<^verbatim>\<open>double\<close> values they are, with the rounding of each
    operation.
\<close>

type_synonym Time = nat
type_synonym Duration = int

definition time_minus :: "Time \<Rightarrow> Time \<Rightarrow> Duration" where
  \<comment> \<open>\<^verbatim>\<open>ros::Time::operator-\<close>\<close>
  "time_minus a b = int a - int b"

text \<open>
  A \<^verbatim>\<open>double\<close> is a real number with a significand of 53 bits.  The result of
  an operation on doubles is the exact result rounded to the nearest double,
  to the one with the even significand when two are equally near.  The exponent
  range of the format is not modelled: the numbers of this file lie between
  \<open>10\<^sup>-\<^sup>9\<close> and \<open>2\<^sup>3\<^sup>2\<close> in magnitude.
\<close>

definition roundEven :: "real \<Rightarrow> int" where
  "roundEven x =
     (let f = \<lfloor>x\<rfloor>; r = x - of_int f
      in if r < 1 / 2 then f
         else if 1 / 2 < r then f + 1
         else if even f then f else f + 1)"

definition pow2 :: "int \<Rightarrow> real" where
  "pow2 e = (if 0 \<le> e then 2 ^ nat e else 1 / 2 ^ nat (- e))"

definition toDouble :: "real \<Rightarrow> real" where
  "toDouble x =
     (if x = 0 then 0
      else (let e = \<lfloor>log 2 \<bar>x\<bar>\<rfloor>
            in of_int (roundEven (x / pow2 (e - 52))) * pow2 (e - 52)))"

text \<open>
  \<^verbatim>\<open>ros::Duration\<close> keeps a duration as seconds and nanoseconds, the nanoseconds
  between 0 and 999999999 also for a negative duration, and
  \<^verbatim>\<open>ros::Duration::toSec()\<close> returns
  \<^verbatim>\<open>static_cast<double>(sec) + 1e-9 * static_cast<double>(nsec)\<close>.  The two
  casts are exact; the constant, the product and the sum are rounded.
\<close>

definition toSec :: "Duration \<Rightarrow> real" where
  "toSec d =
     (let sec = d div 1000000000; nsec = d mod 1000000000
      in toDouble (of_int sec + toDouble (toDouble (1 / 1000000000) * of_int nsec)))"

text \<open>The seconds of a duration as an exact number, for the words of the specification.\<close>

definition seconds :: "Duration \<Rightarrow> real" where
  "seconds d = real_of_int d / 1000000000"

record Quaternion =
  q_x :: real
  q_y :: real
  q_z :: real
  q_w :: real

record Vector3 =
  v_x :: real
  v_y :: real
  v_z :: real

text \<open>
  \<^verbatim>\<open>nav_msgs::Odometry\<close>: header, child frame, pose with covariance, twist.  The
  covariance is an array of 36 numbers, read here as a function of the index.
\<close>

record Odometry =
  header_stamp :: Time
  header_frame_id :: string
  child_frame_id :: string
  orientation :: Quaternion
  position :: Vector3
  covariance :: "nat \<Rightarrow> real"
  twist_angular :: Vector3
  twist_linear :: Vector3

text \<open>\<^verbatim>\<open>tf::StampedTransform\<close>.\<close>

record StampedTransform =
  tf_stamp :: Time
  tf_frame_id :: string
  tf_child_frame_id :: string
  tf_rotation :: Quaternion
  tf_origin :: Vector3

text \<open>
  \<^verbatim>\<open>sensor_msgs::PointCloud2\<close>: the time stamp of the header and the point data.  The
  type \<open>'c\<close> of point clouds is left open; no function of the two files looks
  into a cloud.
\<close>

record 'c PointCloud2 =
  pc_stamp :: Time
  pc_data :: 'c

section \<open>Roll, pitch, yaw and quaternions\<close>

text \<open>
  Modelled from the spec: \<^verbatim>\<open>tf::createQuaternionMsgFromRollPitchYaw\<close>, which both
  files call and \<^verbatim>\<open>src/\<close> does not contain.  Section 4.1 of the specification
  says that the adapter "builds a quaternion" from three roll, pitch, yaw
  angles; this is the quaternion of the rotation \<open>Rz(yaw) Ry(pitch) Rx(roll)\<close>,
  with the half angles written out.
\<close>

definition createQuaternionFromRPY :: "real \<Rightarrow> real \<Rightarrow> real \<Rightarrow> Quaternion" where
  "createQuaternionFromRPY roll pitch yaw =
     (let halfYaw = yaw * (1/2); halfPitch = pitch * (1/2); halfRoll = roll * (1/2);
          cosYaw = cos halfYaw; sinYaw = sin halfYaw;
          cosPitch = cos halfPitch; sinPitch = sin halfPitch;
          cosRoll = cos halfRoll; sinRoll = sin halfRoll
      in \<lparr> q_x = sinRoll * cosPitch * cosYaw - cosRoll * sinPitch * sinYaw,
           q_y = cosRoll * sinPitch * cosYaw + sinRoll * cosPitch * sinYaw,
           q_z = cosRoll * cosPitch * sinYaw - sinRoll * sinPitch * cosYaw,
           q_w = cosRoll * cosPitch * cosYaw + sinRoll * sinPitch * sinYaw \<rparr>)"

text \<open>
  Modelled from the spec: \<^verbatim>\<open>tf::Matrix3x3(const tf::Quaternion&)\<close> and
  \<^verbatim>\<open>tf::Matrix3x3::getRPY\<close>, which \<^verbatim>\<open>TransformMaintenance.cpp\<close> calls and
  \<^verbatim>\<open>src/\<close> does not contain.  Section 4.1 of the specification: the Euler
  angles (roll, pitch, yaw) are extracted "using the standard
  rotation-matrix-to-Euler formula", with \<^verbatim>\<open>asin\<close> and \<^verbatim>\<open>atan2\<close>, and the
  adapter does not crash at pitch = \<plusminus>90 degrees.  The matrix of a quaternion
  is the rotation matrix with the factor \<open>2 / |q|\<^sup>2\<close>;  \<open>getRPY\<close> reads pitch
  from the entry in row 2, column 0, and roll and yaw from the other entries of
  that row and that column.  When that entry is 1 or -1 (the singularity of
  the pitch) it takes yaw = 0 and reads roll from row 0.
\<close>

record Matrix3x3 =
  el00 :: real  el01 :: real  el02 :: real
  el10 :: real  el11 :: real  el12 :: real
  el20 :: real  el21 :: real  el22 :: real

definition length2 :: "Quaternion \<Rightarrow> real" where
  "length2 q = q_x q * q_x q + q_y q * q_y q + q_z q * q_z q + q_w q * q_w q"

definition Matrix3x3_of :: "Quaternion \<Rightarrow> Matrix3x3" where
  "Matrix3x3_of q =
     (let d = length2 q; s = 2 / d;
          xs = q_x q * s; ys = q_y q * s; zs = q_z q * s;
          wx = q_w q * xs; wy = q_w q * ys; wz = q_w q * zs;
          xx = q_x q * xs; xy = q_x q * ys; xz = q_x q * zs;
          yy = q_y q * ys; yz = q_y q * zs; zz = q_z q * zs
      in \<lparr> el00 = 1 - (yy + zz), el01 = xy - wz, el02 = xz + wy,
           el10 = xy + wz, el11 = 1 - (xx + zz), el12 = yz - wx,
           el20 = xz - wy, el21 = yz + wx, el22 = 1 - (xx + yy) \<rparr>)"

definition atan2 :: "real \<Rightarrow> real \<Rightarrow> real" where
  \<comment> \<open>the angle in \<open>(-\<pi>, \<pi>]\<close> of the point \<open>(x, y)\<close>; 0 at the origin\<close>
  "atan2 y x =
     (if 0 < x then arctan (y / x)
      else if x < 0 then (if 0 \<le> y then arctan (y / x) + pi else arctan (y / x) - pi)
      else if 0 < y then pi / 2
      else if y < 0 then - (pi / 2)
      else 0)"

definition getRPY :: "Matrix3x3 \<Rightarrow> real \<times> real \<times> real" where
  \<comment> \<open>the result is (roll, pitch, yaw)\<close>
  "getRPY m =
     (if 1 \<le> \<bar>el20 m\<bar> then
        (if el20 m < 0 then (atan2 (el01 m) (el02 m), pi / 2, 0)
         else (atan2 (- el01 m) (- el02 m), - (pi / 2), 0))
      else
        (let pitch = - arcsin (el20 m);
             roll = atan2 (el21 m / cos pitch) (el22 m / cos pitch);
             yaw = atan2 (el10 m / cos pitch) (el00 m / cos pitch)
         in (roll, pitch, yaw)))"

section \<open>The odometry node: \<^verbatim>\<open>LaserOdometry.cpp\<close>\<close>

subsection \<open>State\<close>

text \<open>\<^verbatim>\<open>Twist\<close>: three rotation angles (in radians) and a position.\<close>

record Twist =
  rot_x :: real
  rot_y :: real
  rot_z :: real
  pos :: Vector3

text \<open>
  The base class \<^verbatim>\<open>BasicLaserOdometry\<close> is declared in a header that is not part
  of \<^verbatim>\<open>src/\<close>.  The record has one field for each member that
  \<^verbatim>\<open>LaserOdometry.cpp\<close> reaches through an accessor or a setter; \<open>b_rest\<close>
  stands for everything else the base class keeps.
\<close>

record ('c, 'r) BasicLaserOdometry =
  cornerPointsSharp :: 'c
  cornerPointsLessSharp :: 'c
  surfPointsFlat :: 'c
  surfPointsLessFlat :: 'c
  laserCloud :: 'c
  lastCornerCloud :: 'c
  lastSurfaceCloud :: 'c
  transformSum :: Twist
  frameCount :: nat
  scanPeriod :: real
  maxIterations :: nat
  deltaTAbort :: real
  deltaRAbort :: real
  b_rest :: 'r

text \<open>
  The methods of the base class and of the point-cloud library that the file
  calls and \<^verbatim>\<open>src/\<close> does not contain are parameters of the model.  They see
  the base-class part of the object only: the flags and time stamps below are
  private members of \<^verbatim>\<open>LaserOdometry\<close>.
\<close>

record ('c, 'r) Collaborators =
  basicProcess :: "('c, 'r) BasicLaserOdometry \<Rightarrow> ('c, 'r) BasicLaserOdometry"
  updateIMU :: "'c \<Rightarrow> ('c, 'r) BasicLaserOdometry \<Rightarrow> ('c, 'r) BasicLaserOdometry"
  transformToEnd :: "('c, 'r) BasicLaserOdometry \<Rightarrow> 'c \<Rightarrow> 'c"
  removeNaNFromPointCloud :: "'c \<Rightarrow> 'c"

record ('c, 'r) LaserOdometry =
  base :: "('c, 'r) BasicLaserOdometry"
  ioRatio :: "16 word"
  initFrame :: string
  odomFrame :: string
  loamOdomTopic :: string
  lidarFrame :: string
  outputTransforms :: bool
  laserOdometryMsg :: Odometry
  laserOdometryTrans :: StampedTransform
  timeCornerPointsSharp :: Time
  timeCornerPointsLessSharp :: Time
  timeSurfPointsFlat :: Time
  timeSurfPointsLessFlat :: Time
  timeLaserCloudFullRes :: Time
  timeImuTrans :: Time
  newCornerPointsSharp :: bool
  newCornerPointsLessSharp :: bool
  newSurfPointsFlat :: bool
  newSurfPointsLessFlat :: bool
  newLaserCloudFullRes :: bool
  newImuTrans :: bool
  advertised :: "string list"
  subscribed :: "string list"

subsection \<open>The six subscriber callbacks and \<^verbatim>\<open>reset\<close>\<close>

definition reset :: "('c, 'r) LaserOdometry \<Rightarrow> ('c, 'r) LaserOdometry" where
  "reset s = s\<lparr> newCornerPointsSharp := False,
               newCornerPointsLessSharp := False,
               newSurfPointsFlat := False,
               newSurfPointsLessFlat := False,
               newLaserCloudFullRes := False,
               newImuTrans := False \<rparr>"

definition laserCloudSharpHandler ::
  "('c, 'r) Collaborators \<Rightarrow> 'c PointCloud2 \<Rightarrow> ('c, 'r) LaserOdometry \<Rightarrow> ('c, 'r) LaserOdometry" where
  "laserCloudSharpHandler C msg s =
     s\<lparr> timeCornerPointsSharp := pc_stamp msg,
        base := (base s)\<lparr> cornerPointsSharp := removeNaNFromPointCloud C (pc_data msg) \<rparr>,
        newCornerPointsSharp := True \<rparr>"

definition laserCloudLessSharpHandler ::
  "('c, 'r) Collaborators \<Rightarrow> 'c PointCloud2 \<Rightarrow> ('c, 'r) LaserOdometry \<Rightarrow> ('c, 'r) LaserOdometry" where
  "laserCloudLessSharpHandler C msg s =
     s\<lparr> timeCornerPointsLessSharp := pc_stamp msg,
        base := (base s)\<lparr> cornerPointsLessSharp := removeNaNFromPointCloud C (pc_data msg) \<rparr>,
        newCornerPointsLessSharp := True \<rparr>"

definition laserCloudFlatHandler ::
  "('c, 'r) Collaborators \<Rightarrow> 'c PointCloud2 \<Rightarrow> ('c, 'r) LaserOdometry \<Rightarrow> ('c, 'r) LaserOdometry" where
  "laserCloudFlatHandler C msg s =
     s\<lparr> timeSurfPointsFlat := pc_stamp msg,
        base := (base s)\<lparr> surfPointsFlat := removeNaNFromPointCloud C (pc_data msg) \<rparr>,
        newSurfPointsFlat := True \<rparr>"

definition laserCloudLessFlatHandler ::
  "('c, 'r) Collaborators \<Rightarrow> 'c PointCloud2 \<Rightarrow> ('c, 'r) LaserOdometry \<Rightarrow> ('c, 'r) LaserOdometry" where
  "laserCloudLessFlatHandler C msg s =
     s\<lparr> timeSurfPointsLessFlat := pc_stamp msg,
        base := (base s)\<lparr> surfPointsLessFlat := removeNaNFromPointCloud C (pc_data msg) \<rparr>,
        newSurfPointsLessFlat := True \<rparr>"

definition laserCloudFullResHandler ::
  "('c, 'r) Collaborators \<Rightarrow> 'c PointCloud2 \<Rightarrow> ('c, 'r) LaserOdometry \<Rightarrow> ('c, 'r) LaserOdometry" where
  "laserCloudFullResHandler C msg s =
     s\<lparr> timeLaserCloudFullRes := pc_stamp msg,
        base := (base s)\<lparr> laserCloud := removeNaNFromPointCloud C (pc_data msg) \<rparr>,
        newLaserCloudFullRes := True \<rparr>"

definition imuTransHandler ::
  "('c, 'r) Collaborators \<Rightarrow> 'c PointCloud2 \<Rightarrow> ('c, 'r) LaserOdometry \<Rightarrow> ('c, 'r) LaserOdometry" where
  "imuTransHandler C msg s =
     s\<lparr> timeImuTrans := pc_stamp msg,
        base := updateIMU C (pc_data msg) (base s),
        newImuTrans := True \<rparr>"

subsection \<open>\<^verbatim>\<open>hasNewData\<close>\<close>

definition hasNewData :: "('c, 'r) LaserOdometry \<Rightarrow> bool" where
  "hasNewData s \<longleftrightarrow>
     newCornerPointsSharp s \<and> newCornerPointsLessSharp s \<and> newSurfPointsFlat s \<and>
     newSurfPointsLessFlat s \<and> newLaserCloudFullRes s \<and> newImuTrans s \<and>
     \<bar>toSec (time_minus (timeCornerPointsSharp s) (timeSurfPointsLessFlat s))\<bar> < toDouble (5 / 1000) \<and>
     \<bar>toSec (time_minus (timeCornerPointsLessSharp s) (timeSurfPointsLessFlat s))\<bar> < toDouble (5 / 1000) \<and>
     \<bar>toSec (time_minus (timeSurfPointsFlat s) (timeSurfPointsLessFlat s))\<bar> < toDouble (5 / 1000) \<and>
     \<bar>toSec (time_minus (timeLaserCloudFullRes s) (timeSurfPointsLessFlat s))\<bar> < toDouble (5 / 1000) \<and>
     \<bar>toSec (time_minus (timeImuTrans s) (timeSurfPointsLessFlat s))\<bar> < toDouble (5 / 1000)"

subsection \<open>\<^verbatim>\<open>publishResult\<close> and \<^verbatim>\<open>process\<close>\<close>

text \<open>
  What a call hands to the transport: an odometry message on
  \<^verbatim>\<open>_pubLaserOdometry\<close>, a transform for the broadcaster, or a cloud on one of the
  three cloud publishers (\<^verbatim>\<open>publishCloudMsg\<close> with the cloud, the stamp and the
  frame).
\<close>

datatype CloudPublisher = PubLaserCloudCornerLast | PubLaserCloudSurfLast | PubLaserCloudFullRes

datatype 'c Output =
    PublishOdometry Odometry
  | SendTransform StampedTransform
  | PublishCloud CloudPublisher 'c Time string

definition publishResult ::
  "('c, 'r) Collaborators \<Rightarrow> ('c, 'r) LaserOdometry \<Rightarrow> ('c, 'r) LaserOdometry \<times> 'c Output list" where
  "publishResult C s =
     (let geoQuat = createQuaternionFromRPY (rot_z (transformSum (base s)))
                                            (- rot_x (transformSum (base s)))
                                            (- rot_y (transformSum (base s)));
          msg = (laserOdometryMsg s)
                  \<lparr> header_stamp := timeSurfPointsLessFlat s,
                    orientation := \<lparr> q_x = - q_y geoQuat, q_y = - q_z geoQuat,
                                     q_z = q_x geoQuat, q_w = q_w geoQuat \<rparr>,
                    position := \<lparr> v_x = v_x (pos (transformSum (base s))),
                                  v_y = v_y (pos (transformSum (base s))),
                                  v_z = v_z (pos (transformSum (base s))) \<rparr> \<rparr>;
          s1 = s\<lparr> laserOdometryMsg := msg \<rparr>;
          trans = (laserOdometryTrans s1)
                  \<lparr> tf_stamp := timeSurfPointsLessFlat s1,
                    tf_rotation := \<lparr> q_x = - q_y geoQuat, q_y = - q_z geoQuat,
                                     q_z = q_x geoQuat, q_w = q_w geoQuat \<rparr>,
                    tf_origin := \<lparr> v_x = v_x (pos (transformSum (base s1))),
                                   v_y = v_y (pos (transformSum (base s1))),
                                   v_z = v_z (pos (transformSum (base s1))) \<rparr> \<rparr>;
          s2 = (if outputTransforms s1 then s1\<lparr> laserOdometryTrans := trans \<rparr> else s1);
          out2 = (if outputTransforms s1 then [SendTransform trans] else [])
      in if unat (ioRatio s2) < 2 \<or> frameCount (base s2) mod unat (ioRatio s2) = 1
         then
           (let sweepTime = timeSurfPointsLessFlat s2;
                b = base s2;
                b' = b\<lparr> laserCloud := transformToEnd C b (laserCloud b) \<rparr>
            in (s2\<lparr> base := b' \<rparr>,
                [PublishOdometry msg] @ out2 @
                [PublishCloud PubLaserCloudCornerLast (lastCornerCloud b) sweepTime (lidarFrame s2),
                 PublishCloud PubLaserCloudSurfLast (lastSurfaceCloud b) sweepTime (lidarFrame s2),
                 PublishCloud PubLaserCloudFullRes (laserCloud b') sweepTime (lidarFrame s2)]))
         else (s2, [PublishOdometry msg] @ out2))"

definition process ::
  "('c, 'r) Collaborators \<Rightarrow> ('c, 'r) LaserOdometry \<Rightarrow> ('c, 'r) LaserOdometry \<times> 'c Output list" where
  "process C s =
     (if \<not> hasNewData s then (s, [])
      else (let s1 = reset s;
                s2 = s1\<lparr> base := basicProcess C (base s1) \<rparr>
            in publishResult C s2))"

subsection \<open>The callbacks and the processing step as events\<close>

text \<open>
  \<^verbatim>\<open>spin\<close> alternates \<^verbatim>\<open>ros::spinOnce()\<close>, which runs the callbacks of the
  messages that have arrived, with \<^verbatim>\<open>process()\<close>.  A run of the node is a
  list of events: the arrival of a message on one of the six subscriptions, or
  one call of \<^verbatim>\<open>process\<close>.
\<close>

datatype Stream =
    CornerPointsSharp | CornerPointsLessSharp | SurfPointsFlat
  | SurfPointsLessFlat | LaserCloudFullRes | ImuTrans

datatype 'c Event = Arrival Stream "'c PointCloud2" | ProcessCall

fun handler ::
  "('c, 'r) Collaborators \<Rightarrow> Stream \<Rightarrow> 'c PointCloud2 \<Rightarrow> ('c, 'r) LaserOdometry \<Rightarrow> ('c, 'r) LaserOdometry" where
  "handler C CornerPointsSharp msg s = laserCloudSharpHandler C msg s"
| "handler C CornerPointsLessSharp msg s = laserCloudLessSharpHandler C msg s"
| "handler C SurfPointsFlat msg s = laserCloudFlatHandler C msg s"
| "handler C SurfPointsLessFlat msg s = laserCloudLessFlatHandler C msg s"
| "handler C LaserCloudFullRes msg s = laserCloudFullResHandler C msg s"
| "handler C ImuTrans msg s = imuTransHandler C msg s"

fun step :: "('c, 'r) Collaborators \<Rightarrow> 'c Event \<Rightarrow> ('c, 'r) LaserOdometry \<Rightarrow> ('c, 'r) LaserOdometry" where
  "step C (Arrival st msg) s = handler C st msg s"
| "step C ProcessCall s = fst (process C s)"

fun run :: "('c, 'r) Collaborators \<Rightarrow> 'c Event list \<Rightarrow> ('c, 'r) LaserOdometry \<Rightarrow> ('c, 'r) LaserOdometry" where
  "run C [] s = s"
| "run C (e # es) s = run C es (step C e s)"

text \<open>The flag and the time stamp that belong to a stream.\<close>

fun newFlag :: "Stream \<Rightarrow> ('c, 'r) LaserOdometry \<Rightarrow> bool" where
  "newFlag CornerPointsSharp s = newCornerPointsSharp s"
| "newFlag CornerPointsLessSharp s = newCornerPointsLessSharp s"
| "newFlag SurfPointsFlat s = newSurfPointsFlat s"
| "newFlag SurfPointsLessFlat s = newSurfPointsLessFlat s"
| "newFlag LaserCloudFullRes s = newLaserCloudFullRes s"
| "newFlag ImuTrans s = newImuTrans s"

fun timeOf :: "Stream \<Rightarrow> ('c, 'r) LaserOdometry \<Rightarrow> Time" where
  "timeOf CornerPointsSharp s = timeCornerPointsSharp s"
| "timeOf CornerPointsLessSharp s = timeCornerPointsLessSharp s"
| "timeOf SurfPointsFlat s = timeSurfPointsFlat s"
| "timeOf SurfPointsLessFlat s = timeSurfPointsLessFlat s"
| "timeOf LaserCloudFullRes s = timeLaserCloudFullRes s"
| "timeOf ImuTrans s = timeImuTrans s"

fun clearFlag :: "Stream \<Rightarrow> ('c, 'r) LaserOdometry \<Rightarrow> ('c, 'r) LaserOdometry" where
  "clearFlag CornerPointsSharp s = s\<lparr> newCornerPointsSharp := False \<rparr>"
| "clearFlag CornerPointsLessSharp s = s\<lparr> newCornerPointsLessSharp := False \<rparr>"
| "clearFlag SurfPointsFlat s = s\<lparr> newSurfPointsFlat := False \<rparr>"
| "clearFlag SurfPointsLessFlat s = s\<lparr> newSurfPointsLessFlat := False \<rparr>"
| "clearFlag LaserCloudFullRes s = s\<lparr> newLaserCloudFullRes := False \<rparr>"
| "clearFlag ImuTrans s = s\<lparr> newImuTrans := False \<rparr>"

definition streams :: "Stream list" where
  "streams = [CornerPointsSharp, CornerPointsLessSharp, SurfPointsFlat,
              SurfPointsLessFlat, LaserCloudFullRes, ImuTrans]"

text \<open>
  The readiness condition in the words of the specification: every flag is
  set, and the largest difference between the time stamps of two streams,
  in seconds, is within the tolerance.
\<close>

definition allNew :: "('c, 'r) LaserOdometry \<Rightarrow> bool" where
  "allNew s \<longleftrightarrow> list_all (\<lambda>i. newFlag i s) streams"

definition maxPairwiseDelta :: "('c, 'r) LaserOdometry \<Rightarrow> real" where
  "maxPairwiseDelta s =
     Max (set (concat (map (\<lambda>i. map (\<lambda>j. \<bar>seconds (time_minus (timeOf i s) (timeOf j s))\<bar>) streams) streams)))"

definition spec_isReady :: "real \<Rightarrow> ('c, 'r) LaserOdometry \<Rightarrow> bool" where
  "spec_isReady tolerance s \<longleftrightarrow> allNew s \<and> maxPairwiseDelta s \<le> tolerance"

text \<open>
  The window around \<^verbatim>\<open>_timeSurfPointsLessFlat\<close>, the stream that \<^verbatim>\<open>hasNewData\<close>
  compares the other five with: a stream is in the window when its time stamp is
  at most 5000000 nanoseconds before and less than 5000000 nanoseconds after
  the time stamp of that stream.
\<close>

definition inAnchorWindow :: "Duration \<Rightarrow> bool" where
  "inAnchorWindow d \<longleftrightarrow> - 5000000 \<le> d \<and> d < 5000000"

definition allInAnchorWindow :: "('c, 'r) LaserOdometry \<Rightarrow> bool" where
  "allInAnchorWindow s \<longleftrightarrow>
     list_all (\<lambda>i. inAnchorWindow (time_minus (timeOf i s) (timeSurfPointsLessFlat s))) streams"

subsection \<open>\<^verbatim>\<open>setup\<close>\<close>

text \<open>
  The parameters that \<^verbatim>\<open>setup\<close> asks the two node handles for.  \<^verbatim>\<open>getParam\<close>
  returns false and leaves its argument alone when the parameter is not set
  (\<open>None\<close>); otherwise it stores the value in \<^verbatim>\<open>fParam\<close>, \<^verbatim>\<open>iParam\<close>,
  \<^verbatim>\<open>bParam\<close> or \<^verbatim>\<open>sParam\<close>.  \<^verbatim>\<open>iParam\<close> is a C \<^verbatim>\<open>int\<close>; it is compared
  with 1 and then stored in the 16-bit \<^verbatim>\<open>_ioRatio\<close>, or passed on as a
  \<^verbatim>\<open>size_t\<close>.
\<close>

record LaserOdometryParams =
  p_scanPeriod :: "real option"
  p_ioRatio :: "int option"
  p_maxIterationsOdom :: "int option"
  p_deltaTAbortOdom :: "real option"
  p_deltaRAbortOdom :: "real option"
  p_initFrame :: "string option"
  p_odomFrame :: "string option"
  p_loamOdomTopic :: "string option"
  p_lidarFrame :: "string option"
  p_outputTransforms :: "bool option"

text \<open>
  Each \<^verbatim>\<open>return false\<close> of \<^verbatim>\<open>setup\<close> follows a \<^verbatim>\<open>ROS_ERROR\<close>; the error
  value says which one.  The result of \<^verbatim>\<open>setup\<close> is \<open>None\<close> for
  \<^verbatim>\<open>return true\<close> and \<open>Some\<close> error for \<^verbatim>\<open>return false\<close>, together with the
  object as the call leaves it.
\<close>

datatype SetupError =
    InvalidScanPeriod real
  | InvalidIoRatio int
  | InvalidMaxIterationsOdom int
  | InvalidDeltaTAbortOdom real
  | InvalidDeltaRAbortOdom real

type_synonym ('c, 'r) SetupResult = "SetupError option \<times> ('c, 'r) LaserOdometry"

definition andThen ::
  "('c, 'r) SetupResult \<Rightarrow> (('c, 'r) LaserOdometry \<Rightarrow> ('c, 'r) SetupResult) \<Rightarrow> ('c, 'r) SetupResult" where
  "andThen r f = (case r of (None, s) \<Rightarrow> f s | (Some e, s) \<Rightarrow> (Some e, s))"

definition getParam_scanPeriod ::
  "LaserOdometryParams \<Rightarrow> ('c, 'r) LaserOdometry \<Rightarrow> ('c, 'r) SetupResult" where
  "getParam_scanPeriod P s =
     (case p_scanPeriod P of
        None \<Rightarrow> (None, s)
      | Some fParam \<Rightarrow>
          if fParam \<le> 0 then (Some (InvalidScanPeriod fParam), s)
          else (None, s\<lparr> base := (base s)\<lparr> scanPeriod := fParam \<rparr> \<rparr>))"

definition getParam_ioRatio ::
  "LaserOdometryParams \<Rightarrow> ('c, 'r) LaserOdometry \<Rightarrow> ('c, 'r) SetupResult" where
  "getParam_ioRatio P s =
     (case p_ioRatio P of
        None \<Rightarrow> (None, s)
      | Some iParam \<Rightarrow>
          if iParam < 1 then (Some (InvalidIoRatio iParam), s)
          else (None, s\<lparr> ioRatio := word_of_int iParam \<rparr>))"

definition getParam_maxIterationsOdom ::
  "LaserOdometryParams \<Rightarrow> ('c, 'r) LaserOdometry \<Rightarrow> ('c, 'r) SetupResult" where
  "getParam_maxIterationsOdom P s =
     (case p_maxIterationsOdom P of
        None \<Rightarrow> (None, s)
      | Some iParam \<Rightarrow>
          if iParam < 1 then (Some (InvalidMaxIterationsOdom iParam), s)
          else (None, s\<lparr> base := (base s)\<lparr> maxIterations := nat iParam \<rparr> \<rparr>))"

definition getParam_deltaTAbortOdom ::
  "LaserOdometryParams \<Rightarrow> ('c, 'r) LaserOdometry \<Rightarrow> ('c, 'r) SetupResult" where
  "getParam_deltaTAbortOdom P s =
     (case p_deltaTAbortOdom P of
        None \<Rightarrow> (None, s)
      | Some fParam \<Rightarrow>
          if fParam \<le> 0 then (Some (InvalidDeltaTAbortOdom fParam), s)
          else (None, s\<lparr> base := (base s)\<lparr> deltaTAbort := fParam \<rparr> \<rparr>))"

definition getParam_deltaRAbortOdom ::
  "LaserOdometryParams \<Rightarrow> ('c, 'r) LaserOdometry \<Rightarrow> ('c, 'r) SetupResult" where
  "getParam_deltaRAbortOdom P s =
     (case p_deltaRAbortOdom P of
        None \<Rightarrow> (None, s)
      | Some fParam \<Rightarrow>
          if fParam \<le> 0 then (Some (InvalidDeltaRAbortOdom fParam), s)
          else (None, s\<lparr> base := (base s)\<lparr> deltaRAbort := fParam \<rparr> \<rparr>))"

text \<open>The rest of \<^verbatim>\<open>setup\<close> has no \<^verbatim>\<open>return false\<close>: names, topics, subscriptions.\<close>

definition getParam_frames ::
  "LaserOdometryParams \<Rightarrow> ('c, 'r) LaserOdometry \<Rightarrow> ('c, 'r) LaserOdometry" where
  "getParam_frames P s =
     (let s1 = (case p_initFrame P of
                  None \<Rightarrow> s
                | Some sParam \<Rightarrow>
                    s\<lparr> initFrame := sParam,
                       laserOdometryMsg := (laserOdometryMsg s)\<lparr> header_frame_id := sParam \<rparr>,
                       laserOdometryTrans := (laserOdometryTrans s)\<lparr> tf_frame_id := sParam \<rparr> \<rparr>);
          s2 = (case p_odomFrame P of
                  None \<Rightarrow> s1
                | Some sParam \<Rightarrow>
                    s1\<lparr> odomFrame := sParam,
                        laserOdometryMsg := (laserOdometryMsg s1)\<lparr> child_frame_id := sParam \<rparr>,
                        laserOdometryTrans := (laserOdometryTrans s1)\<lparr> tf_child_frame_id := sParam \<rparr> \<rparr>);
          s3 = (case p_loamOdomTopic P of None \<Rightarrow> s2 | Some sParam \<Rightarrow> s2\<lparr> loamOdomTopic := sParam \<rparr>);
          s4 = (case p_lidarFrame P of None \<Rightarrow> s3 | Some sParam \<Rightarrow> s3\<lparr> lidarFrame := sParam \<rparr>);
          s5 = (case p_outputTransforms P of None \<Rightarrow> s4 | Some bParam \<Rightarrow> s4\<lparr> outputTransforms := bParam \<rparr>)
      in s5)"

definition advertise_subscribe :: "('c, 'r) LaserOdometry \<Rightarrow> ('c, 'r) LaserOdometry" where
  "advertise_subscribe s =
     s\<lparr> advertised := [''laser_cloud_corner_last'', ''laser_cloud_surf_last'',
                       ''velodyne_cloud_3'', loamOdomTopic s],
        subscribed := [''laser_cloud_sharp'', ''laser_cloud_less_sharp'', ''laser_cloud_flat'',
                       ''laser_cloud_less_flat'', ''velodyne_cloud_2'', ''imu_trans''] \<rparr>"

definition LaserOdometry_setup ::
  "LaserOdometryParams \<Rightarrow> ('c, 'r) LaserOdometry \<Rightarrow> ('c, 'r) SetupResult" where
  "LaserOdometry_setup P s =
     andThen (getParam_scanPeriod P s) (\<lambda>s.
     andThen (getParam_ioRatio P s) (\<lambda>s.
     andThen (getParam_maxIterationsOdom P s) (\<lambda>s.
     andThen (getParam_deltaTAbortOdom P s) (\<lambda>s.
     andThen (getParam_deltaRAbortOdom P s) (\<lambda>s.
       (None, advertise_subscribe (getParam_frames P s)))))))"

definition returns_true :: "('c, 'r) SetupResult \<Rightarrow> bool" where
  "returns_true r \<longleftrightarrow> fst r = None"

text \<open>
  A provided parameter is in range when it passes the comparison the
  specification names: at least 1 for the two integers, above 0 for the three
  floating-point numbers.  A parameter that is not provided is in range.
\<close>

definition inRangeInt :: "int option \<Rightarrow> bool" where
  "inRangeInt p = (case p of None \<Rightarrow> True | Some v \<Rightarrow> 1 \<le> v)"

definition inRangeReal :: "real option \<Rightarrow> bool" where
  "inRangeReal p = (case p of None \<Rightarrow> True | Some v \<Rightarrow> 0 < v)"

definition paramsInRange :: "LaserOdometryParams \<Rightarrow> bool" where
  "paramsInRange P \<longleftrightarrow>
     inRangeReal (p_scanPeriod P) \<and> inRangeInt (p_ioRatio P) \<and>
     inRangeInt (p_maxIterationsOdom P) \<and> inRangeReal (p_deltaTAbortOdom P) \<and>
     inRangeReal (p_deltaRAbortOdom P)"

section \<open>The pose-composer node: \<^verbatim>\<open>TransformMaintenance.cpp\<close>\<close>

subsection \<open>State\<close>


record 'b TransformMaintenance =
  tm_base :: 'b
  tm_mapOdomTopic :: string
  tm_loamOdomTopic :: string
  tm_lidarOdomTopic :: string
  tm_lidarFrame :: string
  tm_initFrame :: string
  laserOdometry2 :: Odometry
  laserOdometryTrans2 :: StampedTransform
  tm_advertised :: "string list"
  tm_subscribed :: "string list"

subsection \<open>\<^verbatim>\<open>setup\<close>\<close>

record TransformMaintenanceParams =
  tp_loamOdomTopic :: "string option"
  tp_mapOdomTopic :: "string option"
  tp_lidarOdomTopic :: "string option"
  tp_initFrame :: "string option"
  tp_lidarFrame :: "string option"

text \<open>The result is the returned truth value and the object as the call leaves it.\<close>

definition TransformMaintenance_setup ::
  "TransformMaintenanceParams \<Rightarrow> 'b TransformMaintenance \<Rightarrow> bool \<times> 'b TransformMaintenance" where
  "TransformMaintenance_setup P s =
     (let s1 = (case tp_loamOdomTopic P of None \<Rightarrow> s | Some sParam \<Rightarrow> s\<lparr> tm_loamOdomTopic := sParam \<rparr>);
          s2 = (case tp_mapOdomTopic P of None \<Rightarrow> s1 | Some sParam \<Rightarrow> s1\<lparr> tm_mapOdomTopic := sParam \<rparr>);
          s3 = (case tp_lidarOdomTopic P of None \<Rightarrow> s2 | Some sParam \<Rightarrow> s2\<lparr> tm_lidarOdomTopic := sParam \<rparr>);
          s4 = (case tp_initFrame P of
                  None \<Rightarrow> s3
                | Some sParam \<Rightarrow>
                    s3\<lparr> tm_initFrame := sParam,
                        laserOdometry2 := (laserOdometry2 s3)\<lparr> header_frame_id := sParam \<rparr>,
                        laserOdometryTrans2 := (laserOdometryTrans2 s3)\<lparr> tf_frame_id := sParam \<rparr> \<rparr>);
          s5 = (case tp_lidarFrame P of
                  None \<Rightarrow> s4
                | Some sParam \<Rightarrow>
                    s4\<lparr> tm_lidarFrame := sParam,
                        laserOdometry2 := (laserOdometry2 s4)\<lparr> child_frame_id := sParam \<rparr>,
                        laserOdometryTrans2 := (laserOdometryTrans2 s4)\<lparr> tf_child_frame_id := sParam \<rparr> \<rparr>);
          s6 = s5\<lparr> tm_advertised := [tm_lidarOdomTopic s5],
                   tm_subscribed := [tm_loamOdomTopic s5, tm_mapOdomTopic s5] \<rparr>
      in (True, s6))"

subsection \<open>The two subscriber callbacks\<close>





section \<open>The frame convention adapter in the words of the specification\<close>

text \<open>
  Section 4.1: the inbound conversion forms the quaternion
  \<open>(qz, -qx, -qy, qw)\<close>, extracts (roll, pitch, yaw) from it and returns
  \<open>(rx, ry, rz) = (-pitch, -yaw, roll)\<close>; the outbound conversion builds a
  quaternion from \<open>(rz, -rx, -ry)\<close> and emits its components as
  \<open>(-qy, -qz, qx, qw)\<close>.
\<close>

definition toInternal :: "Quaternion \<Rightarrow> real \<times> real \<times> real" where
  "toInternal q =
     (case getRPY (Matrix3x3_of \<lparr> q_x = q_z q, q_y = - q_x q, q_z = - q_y q, q_w = q_w q \<rparr>) of
        (roll, pitch, yaw) \<Rightarrow> (- pitch, - yaw, roll))"

definition toOutput :: "real \<times> real \<times> real \<Rightarrow> Quaternion" where
  "toOutput r =
     (case r of (rx, ry, rz) \<Rightarrow>
        (let q = createQuaternionFromRPY rz (- rx) (- ry)
         in \<lparr> q_x = - q_y q, q_y = - q_z q, q_z = q_x q, q_w = q_w q \<rparr>))"

section \<open>The pose composer in the words of the specification\<close>















section \<open>Auxiliary notions\<close>

definition permuteIn :: "Quaternion \<Rightarrow> Quaternion" where
  "permuteIn q = \<lparr> q_x = q_z q, q_y = - q_x q, q_z = - q_y q, q_w = q_w q \<rparr>"

text \<open>
  The pitch of an orientation is at the singularity when the entry of the
  matrix that \<open>getRPY\<close> takes the pitch from is 1 or -1.  The quaternions
  \<open>q\<close> and \<open>negated q\<close> stand for the same orientation.
\<close>

definition atGimbalSingularity :: "Quaternion \<Rightarrow> bool" where
  "atGimbalSingularity q \<longleftrightarrow> 1 \<le> \<bar>el20 (Matrix3x3_of (permuteIn q))\<bar>"

definition negated :: "Quaternion \<Rightarrow> Quaternion" where
  "negated q = \<lparr> q_x = - q_x q, q_y = - q_y q, q_z = - q_z q, q_w = - q_w q \<rparr>"

text \<open>The rotation matrix \<open>Rz(yaw) Ry(pitch) Rx(roll)\<close>.\<close>

definition rpyMatrix :: "real \<Rightarrow> real \<Rightarrow> real \<Rightarrow> Matrix3x3" where
  "rpyMatrix roll pitch yaw =
     \<lparr> el00 = cos pitch * cos yaw,
       el01 = sin roll * sin pitch * cos yaw - cos roll * sin yaw,
       el02 = cos roll * sin pitch * cos yaw + sin roll * sin yaw,
       el10 = cos pitch * sin yaw,
       el11 = sin roll * sin pitch * sin yaw + cos roll * cos yaw,
       el12 = cos roll * sin pitch * sin yaw - sin roll * cos yaw,
       el20 = - sin pitch,
       el21 = sin roll * cos pitch,
       el22 = cos roll * cos pitch \<rparr>"

section \<open>What a call publishes\<close>

fun isOdometry :: "'c Output \<Rightarrow> bool" where
  "isOdometry (PublishOdometry m) = True"
| "isOdometry _ = False"

fun isCloudOn :: "CloudPublisher \<Rightarrow> 'c Output \<Rightarrow> bool" where
  "isCloudOn p (PublishCloud p' c t f) = (p = p')"
| "isCloudOn p _ = False"

definition publishesOdometry :: "'c Output list \<Rightarrow> bool" where
  "publishesOdometry out = list_ex isOdometry out"

definition publishesCloud :: "CloudPublisher \<Rightarrow> 'c Output list \<Rightarrow> bool" where
  "publishesCloud p out = list_ex (isCloudOn p) out"

section \<open>An example node\<close>

text \<open>
  A node as the constructor leaves it, with collaborators that count frames and
  leave the clouds alone, and the node after one message on each subscription.
\<close>

definition exampleCollaborators :: "(nat list, unit) Collaborators" where
  "exampleCollaborators =
     \<lparr> basicProcess = (\<lambda>b. b\<lparr> frameCount := Suc (frameCount b) \<rparr>),
       updateIMU = (\<lambda>c b. b),
       transformToEnd = (\<lambda>b c. c),
       removeNaNFromPointCloud = (\<lambda>c. c) \<rparr>"

definition exampleOdometry :: Odometry where
  "exampleOdometry =
     \<lparr> header_stamp = 0, header_frame_id = ''/camera_init'', child_frame_id = ''/laser_odom'',
       orientation = \<lparr> q_x = 0, q_y = 0, q_z = 0, q_w = 1 \<rparr>,
       position = \<lparr> v_x = 0, v_y = 0, v_z = 0 \<rparr>,
       covariance = (\<lambda>i. 0),
       twist_angular = \<lparr> v_x = 0, v_y = 0, v_z = 0 \<rparr>,
       twist_linear = \<lparr> v_x = 0, v_y = 0, v_z = 0 \<rparr> \<rparr>"

definition exampleTransform :: StampedTransform where
  "exampleTransform =
     \<lparr> tf_stamp = 0, tf_frame_id = ''/camera_init'', tf_child_frame_id = ''/laser_odom'',
       tf_rotation = \<lparr> q_x = 0, q_y = 0, q_z = 0, q_w = 1 \<rparr>,
       tf_origin = \<lparr> v_x = 0, v_y = 0, v_z = 0 \<rparr> \<rparr>"

definition exampleNode :: "(nat list, unit) LaserOdometry" where
  "exampleNode =
     \<lparr> base = \<lparr> cornerPointsSharp = [], cornerPointsLessSharp = [], surfPointsFlat = [],
                surfPointsLessFlat = [], laserCloud = [], lastCornerCloud = [],
                lastSurfaceCloud = [],
                transformSum = \<lparr> rot_x = 0, rot_y = 0, rot_z = 0,
                                 pos = \<lparr> v_x = 0, v_y = 0, v_z = 0 \<rparr> \<rparr>,
                frameCount = 0, scanPeriod = 1 / 10, maxIterations = 25,
                deltaTAbort = 1 / 10, deltaRAbort = 1 / 10, b_rest = () \<rparr>,
       ioRatio = 2,
       initFrame = ''/camera_init'', odomFrame = ''/laser_odom'',
       loamOdomTopic = ''/laser_odom_to_init'', lidarFrame = ''/camera'',
       outputTransforms = True,
       laserOdometryMsg = exampleOdometry, laserOdometryTrans = exampleTransform,
       timeCornerPointsSharp = 0, timeCornerPointsLessSharp = 0, timeSurfPointsFlat = 0,
       timeSurfPointsLessFlat = 0, timeLaserCloudFullRes = 0, timeImuTrans = 0,
       newCornerPointsSharp = False, newCornerPointsLessSharp = False,
       newSurfPointsFlat = False, newSurfPointsLessFlat = False,
       newLaserCloudFullRes = False, newImuTrans = False,
       advertised = [], subscribed = [] \<rparr>"

definition arrivals :: "Time \<Rightarrow> Time \<Rightarrow> Time \<Rightarrow> Time \<Rightarrow> Time \<Rightarrow> Time \<Rightarrow> nat list Event list" where
  "arrivals t1 t2 t3 t4 t5 t6 =
     [Arrival CornerPointsSharp \<lparr> pc_stamp = t1, pc_data = [] \<rparr>,
      Arrival CornerPointsLessSharp \<lparr> pc_stamp = t2, pc_data = [] \<rparr>,
      Arrival SurfPointsFlat \<lparr> pc_stamp = t3, pc_data = [] \<rparr>,
      Arrival SurfPointsLessFlat \<lparr> pc_stamp = t4, pc_data = [] \<rparr>,
      Arrival LaserCloudFullRes \<lparr> pc_stamp = t5, pc_data = [] \<rparr>,
      Arrival ImuTrans \<lparr> pc_stamp = t6, pc_data = [] \<rparr>]"

definition filled :: "Time \<Rightarrow> Time \<Rightarrow> Time \<Rightarrow> Time \<Rightarrow> Time \<Rightarrow> Time \<Rightarrow> (nat list, unit) LaserOdometry" where
  "filled t1 t2 t3 t4 t5 t6 = run exampleCollaborators (arrivals t1 t2 t3 t4 t5 t6) exampleNode"

definition throttled :: "16 word \<Rightarrow> nat \<Rightarrow> (nat list, unit) LaserOdometry" where
  "throttled k n = exampleNode\<lparr> ioRatio := k, base := (base exampleNode)\<lparr> frameCount := n \<rparr> \<rparr>"

definition noParams :: LaserOdometryParams where
  "noParams =
     \<lparr> p_scanPeriod = None, p_ioRatio = None, p_maxIterationsOdom = None,
       p_deltaTAbortOdom = None, p_deltaRAbortOdom = None, p_initFrame = None,
       p_odomFrame = None, p_loamOdomTopic = None, p_lidarFrame = None,
       p_outputTransforms = None \<rparr>"

text \<open>
  The throttle condition in the words of the specification, for the configured
  integer ratio \<open>k\<close> and the frame count \<open>n\<close>; and the example node
  configured by \<^verbatim>\<open>setup\<close> with the ratio \<open>k\<close>, at the frame count \<open>n\<close>,
  after one message on each subscription.
\<close>

definition spec_heavyDue :: "int \<Rightarrow> nat \<Rightarrow> bool" where
  "spec_heavyDue k n \<longleftrightarrow> k < 2 \<or> int n mod k = 1"

definition configuredNode :: "int \<Rightarrow> nat \<Rightarrow> (nat list, unit) LaserOdometry" where
  "configuredNode k n =
     run exampleCollaborators (arrivals 0 0 0 0 0 0)
       (snd (LaserOdometry_setup (noParams\<lparr> p_ioRatio := Some k \<rparr>) (throttled 2 n)))"










section \<open>The seconds of a duration\<close>

lemma pow2_powr: "pow2 e = 2 powr (of_int e)"
proof (cases "0 \<le> e")
  case True
  then have "2 powr (of_int e) = (2::real) powr (real (nat e))" by simp
  also have "\<dots> = 2 ^ nat e" by (simp add: powr_realpow)
  finally show ?thesis using True by (simp add: pow2_def)
next
  case False
  then have "2 powr (of_int e) = (2::real) powr (- real (nat (- e)))" by simp
  also have "\<dots> = 1 / 2 ^ nat (- e)" by (simp add: powr_minus powr_realpow field_simps)
  finally show ?thesis using False by (simp add: pow2_def)
qed

lemma pow2_pos: "0 < pow2 e"
  by (simp add: pow2_powr)

lemma pow2_diff: "pow2 (e - 52) = pow2 e / 2 ^ 52"
proof -
  have "pow2 (e - 52) = 2 powr (of_int e - 52)" by (simp add: pow2_powr)
  also have "\<dots> = 2 powr (of_int e) / 2 powr 52" by (simp add: powr_diff)
  also have "(2::real) powr 52 = 2 ^ 52" by (simp add: powr_numeral)
  finally show ?thesis by (simp add: pow2_powr)
qed

lemma roundEven_error: "\<bar>of_int (roundEven z) - z\<bar> \<le> 1 / 2"
proof -
  have "of_int \<lfloor>z\<rfloor> \<le> z" "z < of_int \<lfloor>z\<rfloor> + 1" by linarith+
  then show ?thesis
    by (auto simp: roundEven_def Let_def)
qed

lemma roundEven_nearest:
  assumes "of_int m - 1 / 2 < z" and "z < of_int m + 1 / 2"
  shows "roundEven z = m"
proof -
  consider "\<lfloor>z\<rfloor> = m" | "\<lfloor>z\<rfloor> = m - 1"
    using assms by (cases "of_int m \<le> z") (auto simp: floor_eq_iff)
  then show ?thesis
  proof cases
    case 1
    then show ?thesis using assms by (auto simp: roundEven_def Let_def)
  next
    case 2
    then show ?thesis using assms by (auto simp: roundEven_def Let_def)
  qed
qed

lemma toDouble_at:
  assumes "pow2 e \<le> \<bar>x\<bar>" and "\<bar>x\<bar> < pow2 (e + 1)"
  shows "toDouble x = of_int (roundEven (x / pow2 (e - 52))) * pow2 (e - 52)"
proof -
  have x: "0 < \<bar>x\<bar>" using assms(1) pow2_pos [of e] by linarith
  have "\<lfloor>log 2 \<bar>x\<bar>\<rfloor> = e"
    using assms x by (simp add: floor_log_eq_powr_iff pow2_powr)
  then show ?thesis using x by (simp add: toDouble_def Let_def)
qed

lemma toDouble_value:
  assumes "pow2 e \<le> \<bar>x\<bar>" and "\<bar>x\<bar> < pow2 (e + 1)"
    and "of_int m - 1 / 2 < x / pow2 (e - 52)" and "x / pow2 (e - 52) < of_int m + 1 / 2"
  shows "toDouble x = of_int m * pow2 (e - 52)"
  using toDouble_at [OF assms(1,2)] roundEven_nearest [OF assms(3,4)] by simp

lemma toDouble_error: "\<bar>toDouble x - x\<bar> \<le> \<bar>x\<bar> / 2 ^ 53"
proof (cases "x = 0")
  case True
  then show ?thesis by (simp add: toDouble_def)
next
  case False
  define e where "e = \<lfloor>log 2 \<bar>x\<bar>\<rfloor>"
  define u where "u = pow2 (e - 52)"
  have upos: "0 < u" by (simp add: u_def pow2_pos)
  have "of_int e \<le> log 2 \<bar>x\<bar>" by (simp add: e_def)
  then have "2 powr (of_int e) \<le> \<bar>x\<bar>"
    using False by (simp add: le_log_iff)
  moreover have "u * 2 ^ 52 = pow2 e"
    unfolding u_def pow2_diff by simp
  ultimately have ux: "u * 2 ^ 52 \<le> \<bar>x\<bar>"
    by (simp only: pow2_powr)
  have t: "toDouble x = of_int (roundEven (x / u)) * u"
    using False by (simp add: toDouble_def Let_def e_def u_def)
  have "toDouble x - x = (of_int (roundEven (x / u)) - x / u) * u"
    using upos by (simp add: t field_simps)
  then have "\<bar>toDouble x - x\<bar> = \<bar>of_int (roundEven (x / u)) - x / u\<bar> * u"
    using upos by (simp add: abs_mult)
  also have "\<dots> \<le> 1 / 2 * u"
    using roundEven_error [of "x / u"] upos by (intro mult_right_mono) simp_all
  also have "\<dots> \<le> \<bar>x\<bar> / 2 ^ 53"
    using ux by simp
  finally show ?thesis .
qed

text \<open>
  The constant \<^verbatim>\<open>1e-9\<close> of \<^verbatim>\<open>toSec\<close>, the constant \<^verbatim>\<open>0.005\<close> of
  \<^verbatim>\<open>hasNewData\<close>, and \<^verbatim>\<open>toSec\<close> at 5000000 nanoseconds and at -5000000
  nanoseconds.  The second is a duration of -1 second and 995000000
  nanoseconds; the sum of -1 and the rounded product is below 0.005 in
  magnitude.
\<close>

lemma double_1e9: "toDouble (1 / 1000000000) = 4835703278458517 / 2 ^ 82"
  using toDouble_value [of "- 30" "1 / 1000000000" 4835703278458517]
  by (simp add: pow2_def)

lemma double_0005: "toDouble (5 / 1000) = 5764607523034235 / 2 ^ 60"
  using toDouble_value [of "- 8" "5 / 1000" 5764607523034235]
  by (simp add: pow2_def)

lemma toSec_parts:
  assumes "sec = d div 1000000000" and "n = d mod 1000000000"
    and "c = toDouble (1 / 1000000000)"
  shows "toSec d = toDouble (of_int sec + toDouble (c * of_int n))"
  by (simp only: toSec_def Let_def assms)

lemma toSec_after: "toSec 5000000 = 5764607523034235 / 2 ^ 60"
proof -
  define C :: real where "C = 4835703278458517 / 2 ^ 82"
  define P :: real where "P = 5764607523034235 / 2 ^ 60"
  have c: "C = toDouble (1 / 1000000000)"
    by (simp only: C_def double_1e9)
  have p: "toDouble (C * 5000000) = P"
    using toDouble_value [of "- 8" "4835703278458517 / 2 ^ 82 * 5000000" 5764607523034235]
    by (simp add: pow2_def C_def P_def)
  have q: "toDouble P = P"
    using toDouble_value [of "- 8" "5764607523034235 / 2 ^ 60" 5764607523034235]
    by (simp add: pow2_def P_def)
  have "toSec 5000000 = toDouble (of_int 0 + toDouble (C * of_int 5000000))"
    by (rule toSec_parts [OF _ _ c]) simp_all
  also have "\<dots> = P" by (simp add: p q)
  finally show ?thesis by (simp only: P_def)
qed

lemma toSec_before: "toSec (- 5000000) = - (5764607523034112 / 2 ^ 60)"
proof -
  define C :: real where "C = 4835703278458517 / 2 ^ 82"
  define P :: real where "P = 8962163258467288 / 2 ^ 53"
  define Y :: real where "Y = - (5764607523034112 / 2 ^ 60)"
  have c: "C = toDouble (1 / 1000000000)"
    by (simp only: C_def double_1e9)
  have p: "toDouble (C * 995000000) = P"
    using toDouble_value [of "- 1" "4835703278458517 / 2 ^ 82 * 995000000" 8962163258467288]
    by (simp add: pow2_def C_def P_def)
  have y: "- 1 + P = Y"
    by (simp add: P_def Y_def)
  have q: "toDouble Y = Y"
    using toDouble_value [of "- 8" "- (5764607523034112 / 2 ^ 60)" "- 5764607523034112"]
    by (simp add: pow2_def Y_def)
  have "toSec (- 5000000) = toDouble (of_int (- 1) + toDouble (C * of_int 995000000))"
    by (rule toSec_parts [OF _ _ c]) simp_all
  also have "\<dots> = toDouble (- 1 + P)" by (simp add: p)
  also have "\<dots> = Y" by (simp only: y q)
  finally show ?thesis by (simp only: Y_def)
qed

text \<open>
  Away from these two durations the rounding does not decide the comparison:
  \<^verbatim>\<open>toSec\<close> is within \<open>10\<^sup>-\<^sup>1\<^sup>5\<close> of the exact seconds of a duration of less than
  a second, and at least a quarter in magnitude from one second on.
\<close>

lemma product_near:
  fixes n :: real
  assumes "0 \<le> n" and "n \<le> 1000000000"
  shows "\<bar>toDouble (4835703278458517 / 2 ^ 82 * n) - n / 1000000000\<bar> \<le> 4 / 10000000000000000"
proof -
  define x where "x = 4835703278458517 / 2 ^ 82 * n"
  have lo: "n / 1000000000 \<le> x" and hi: "x \<le> n / 1000000000 + 1 / 10000000000000000"
    using assms by (simp_all add: x_def)
  have "0 \<le> x" "x \<le> 2" using lo hi assms by simp_all
  then have "\<bar>toDouble x - x\<bar> \<le> 1 / 4503599627370496"
    using toDouble_error [of x] by simp
  then show ?thesis
    unfolding x_def [symmetric] using lo hi by linarith
qed

lemma toSec_split:
  fixes d :: int
  defines "sec \<equiv> d div 1000000000" and "n \<equiv> d mod 1000000000"
  defines "y \<equiv> of_int sec + toDouble (4835703278458517 / 2 ^ 82 * of_int n)"
  shows "toSec d = toDouble y"
    and "\<bar>y - seconds d\<bar> \<le> 4 / 10000000000000000"
proof -
  have c: "4835703278458517 / 2 ^ 82 = toDouble (1 / 1000000000)"
    by (simp only: double_1e9)
  show "toSec d = toDouble y"
    unfolding y_def by (rule toSec_parts [OF _ _ c]) (simp_all add: sec_def n_def)
  have n: "0 \<le> n" "n < 1000000000"
    by (simp_all add: n_def)
  then have "(0::real) \<le> of_int n" "of_int n \<le> (1000000000::real)"
    by simp_all
  then have p: "\<bar>toDouble (4835703278458517 / 2 ^ 82 * of_int n) - of_int n / 1000000000\<bar> \<le> 4 / 10000000000000000"
    by (rule product_near)
  have "d = sec * 1000000000 + n"
    by (simp add: sec_def n_def)
  then have "real_of_int d = of_int sec * 1000000000 + of_int n"
    by simp
  then have "seconds d = of_int sec + of_int n / 1000000000"
    by (simp add: seconds_def field_simps)
  then show "\<bar>y - seconds d\<bar> \<le> 4 / 10000000000000000"
    using p by (simp add: y_def)
qed

lemma toSec_near:
  assumes "- 1000000000 \<le> d" and "d < 1000000000"
  shows "\<bar>toSec d - seconds d\<bar> \<le> 1 / 1000000000000000"
proof -
  define y where "y = of_int (d div 1000000000) +
    toDouble (4835703278458517 / 2 ^ 82 * of_int (d mod 1000000000))"
  have t: "toSec d = toDouble y" and e: "\<bar>y - seconds d\<bar> \<le> 4 / 10000000000000000"
    unfolding y_def by (rule toSec_split)+
  have "\<bar>seconds d\<bar> \<le> 1"
    using assms by (simp add: seconds_def abs_le_iff)
  then have "\<bar>y\<bar> \<le> 2" using e by linarith
  then have "\<bar>toDouble y - y\<bar> \<le> 1 / 4503599627370496"
    using toDouble_error [of y] by simp
  then show ?thesis
    unfolding t using e by linarith
qed

lemma toSec_far:
  assumes "d < - 1000000000 \<or> 1000000000 \<le> d"
  shows "1 / 4 \<le> \<bar>toSec d\<bar>"
proof -
  define y where "y = of_int (d div 1000000000) +
    toDouble (4835703278458517 / 2 ^ 82 * of_int (d mod 1000000000))"
  have t: "toSec d = toDouble y" and e: "\<bar>y - seconds d\<bar> \<le> 4 / 10000000000000000"
    unfolding y_def by (rule toSec_split)+
  have "real_of_int d \<le> - 1000000001 \<or> 1000000000 \<le> real_of_int d"
  proof -
    from assms have "d \<le> - 1000000001 \<or> 1000000000 \<le> d" by linarith
    then have "real_of_int d \<le> of_int (- 1000000001) \<or> of_int 1000000000 \<le> real_of_int d"
      by (simp only: of_int_le_iff)
    then show ?thesis by simp
  qed
  then have "1 \<le> \<bar>seconds d\<bar>"
    by (auto simp: seconds_def abs_if)
  then have y: "1 / 2 \<le> \<bar>y\<bar>" using e by linarith
  have "\<bar>toDouble y - y\<bar> \<le> \<bar>y\<bar> / 2"
    using toDouble_error [of y] by simp
  then show ?thesis
    unfolding t using y by linarith
qed

lemma within_tolerance_iff: "\<bar>toSec d\<bar> < toDouble (5 / 1000) \<longleftrightarrow> inAnchorWindow d"
proof -
  have L: "toDouble (5 / 1000) = 5764607523034235 / 1152921504606846976"
    unfolding double_0005 by simp
  have lo: "4999999 / 1000000000 + 1 / 1000000000000000 < toDouble (5 / 1000)"
    and hi: "toDouble (5 / 1000) < 5000001 / 1000000000 - 1 / 1000000000000000"
    and far: "toDouble (5 / 1000) < 1 / 4"
    unfolding L by simp_all
  have near: "\<bar>toSec d - seconds d\<bar> \<le> 1 / 1000000000000000"
    if "- 1000000000 \<le> d" and "d < 1000000000"
    using that by (rule toSec_near)
  consider "d < - 1000000000 \<or> 1000000000 \<le> d" | "d = 5000000" | "d = - 5000000"
    | "- 4999999 \<le> d \<and> d \<le> 4999999"
    | "- 1000000000 \<le> d \<and> d \<le> - 5000001" | "5000001 \<le> d \<and> d < 1000000000"
    by linarith
  then show ?thesis
  proof cases
    case 1
    then have "\<not> inAnchorWindow d" by (auto simp: inAnchorWindow_def)
    moreover have "\<not> \<bar>toSec d\<bar> < toDouble (5 / 1000)"
      using toSec_far [OF 1] far by linarith
    ultimately show ?thesis by simp
  next
    case 2
    have "\<not> \<bar>toSec 5000000\<bar> < toDouble (5 / 1000)"
      unfolding toSec_after double_0005 by simp
    then show ?thesis using 2 by (simp add: inAnchorWindow_def)
  next
    case 3
    have "\<bar>toSec (- 5000000)\<bar> < toDouble (5 / 1000)"
      unfolding toSec_before double_0005 by simp
    then show ?thesis using 3 by (simp add: inAnchorWindow_def)
  next
    case 4
    then have "real_of_int d \<le> 4999999" "- 4999999 \<le> real_of_int d"
      by simp_all
    then have "\<bar>seconds d\<bar> \<le> 4999999 / 1000000000"
      by (simp add: seconds_def abs_le_iff)
    moreover have "\<bar>toSec d - seconds d\<bar> \<le> 1 / 1000000000000000"
      using 4 by (intro near) simp_all
    ultimately have "\<bar>toSec d\<bar> < toDouble (5 / 1000)"
      using lo by linarith
    then show ?thesis using 4 by (simp add: inAnchorWindow_def)
  next
    case 5
    then have "real_of_int d \<le> - 5000001"
      by simp
    then have "seconds d \<le> - (5000001 / 1000000000)"
      by (simp add: seconds_def)
    moreover have "\<bar>toSec d - seconds d\<bar> \<le> 1 / 1000000000000000"
      using 5 by (intro near) simp_all
    ultimately have "\<not> \<bar>toSec d\<bar> < toDouble (5 / 1000)"
      using hi by linarith
    then show ?thesis using 5 by (simp add: inAnchorWindow_def)
  next
    case 6
    then have "5000001 \<le> real_of_int d"
      by simp
    then have "5000001 / 1000000000 \<le> seconds d"
      by (simp add: seconds_def)
    moreover have "\<bar>toSec d - seconds d\<bar> \<le> 1 / 1000000000000000"
      using 6 by (intro near) simp_all
    ultimately have "\<not> \<bar>toSec d\<bar> < toDouble (5 / 1000)"
      using hi by linarith
    then show ?thesis using 6 by (simp add: inAnchorWindow_def)
  qed
qed

section \<open>Readiness of the six stream slots\<close>

lemma streams_all: "i \<in> set streams"
  by (cases i) (simp_all add: streams_def)

lemma allNew_iff: "allNew s \<longleftrightarrow> (\<forall>i. newFlag i s)"
  by (auto simp: allNew_def list_all_iff streams_all)

lemma allInAnchorWindow_iff:
  "allInAnchorWindow s \<longleftrightarrow>
     (\<forall>i. inAnchorWindow (time_minus (timeOf i s) (timeSurfPointsLessFlat s)))"
  by (auto simp: allInAnchorWindow_def list_all_iff streams_all)

lemma maxPairwiseDelta_less:
  "maxPairwiseDelta s < c \<longleftrightarrow> (\<forall>i j. \<bar>seconds (time_minus (timeOf i s) (timeOf j s))\<bar> < c)"
proof -
  let ?L = "concat (map (\<lambda>i. map (\<lambda>j. \<bar>seconds (time_minus (timeOf i s) (timeOf j s))\<bar>) streams) streams)"
  have "maxPairwiseDelta s < c \<longleftrightarrow> (\<forall>a \<in> set ?L. a < c)"
    unfolding maxPairwiseDelta_def by (rule Max_less_iff) (simp_all add: streams_def)
  also have "\<dots> \<longleftrightarrow> (\<forall>i j. \<bar>seconds (time_minus (timeOf i s) (timeOf j s))\<bar> < c)"
    by (auto simp: streams_all)
  finally show ?thesis .
qed

lemma hasNewData_windows:
  "hasNewData s \<longleftrightarrow>
     newCornerPointsSharp s \<and> newCornerPointsLessSharp s \<and> newSurfPointsFlat s \<and>
     newSurfPointsLessFlat s \<and> newLaserCloudFullRes s \<and> newImuTrans s \<and>
     inAnchorWindow (time_minus (timeCornerPointsSharp s) (timeSurfPointsLessFlat s)) \<and>
     inAnchorWindow (time_minus (timeCornerPointsLessSharp s) (timeSurfPointsLessFlat s)) \<and>
     inAnchorWindow (time_minus (timeSurfPointsFlat s) (timeSurfPointsLessFlat s)) \<and>
     inAnchorWindow (time_minus (timeLaserCloudFullRes s) (timeSurfPointsLessFlat s)) \<and>
     inAnchorWindow (time_minus (timeImuTrans s) (timeSurfPointsLessFlat s))"
  unfolding hasNewData_def within_tolerance_iff ..

lemma anchor_in_window: "inAnchorWindow (time_minus t t)"
  by (simp add: inAnchorWindow_def time_minus_def)

lemma hasNewData_iff:
  "hasNewData s \<longleftrightarrow> (\<forall>i. newFlag i s) \<and>
     (\<forall>i. inAnchorWindow (time_minus (timeOf i s) (timeSurfPointsLessFlat s)))"
  (is "?L \<longleftrightarrow> ?F \<and> ?T")
proof
  assume ?L
  have "newFlag i s" for i
    using \<open>?L\<close> by (cases i) (simp_all add: hasNewData_windows)
  moreover have "inAnchorWindow (time_minus (timeOf i s) (timeSurfPointsLessFlat s))" for i
    using \<open>?L\<close> by (cases i) (simp_all add: hasNewData_windows anchor_in_window)
  ultimately show "?F \<and> ?T" by blast
next
  assume a: "?F \<and> ?T"
  then have f: "\<And>i. newFlag i s"
    and t: "\<And>i. inAnchorWindow (time_minus (timeOf i s) (timeSurfPointsLessFlat s))"
    by blast+
  show ?L
    unfolding hasNewData_windows
    using f [of CornerPointsSharp] f [of CornerPointsLessSharp] f [of SurfPointsFlat]
      f [of SurfPointsLessFlat] f [of LaserCloudFullRes] f [of ImuTrans]
      t [of CornerPointsSharp] t [of CornerPointsLessSharp] t [of SurfPointsFlat]
      t [of LaserCloudFullRes] t [of ImuTrans]
    by simp
qed

lemma hasNewData_window: "hasNewData s \<longleftrightarrow> allNew s \<and> allInAnchorWindow s"
  by (simp only: hasNewData_iff allNew_iff allInAnchorWindow_iff)

lemma hasNewData_flags: "hasNewData s \<Longrightarrow> newFlag i s"
  by (simp add: hasNewData_iff)

lemma newFlag_clearFlag: "\<not> newFlag i (clearFlag i s)"
  by (cases i) simp_all

lemma seconds_window:
  "\<bar>seconds d\<bar> < 5 / 1000 \<Longrightarrow> inAnchorWindow d"
proof -
  assume "\<bar>seconds d\<bar> < 5 / 1000"
  then have "real_of_int d < 5000000" "- 5000000 < real_of_int d"
    by (simp_all add: seconds_def abs_less_iff)
  then have "d < 5000000" "- 5000000 < d" by linarith+
  then show ?thesis by (simp add: inAnchorWindow_def)
qed

lemma window_pairwise:
  assumes "inAnchorWindow (time_minus a c)" and "inAnchorWindow (time_minus b c)"
  shows "\<bar>seconds (time_minus a b)\<bar> < 10 / 1000"
proof -
  have "time_minus a b = time_minus a c - time_minus b c"
    by (simp add: time_minus_def)
  then have "- 10000000 < time_minus a b" "time_minus a b < 10000000"
    using assms by (simp_all add: inAnchorWindow_def)
  then have "- 10000000 < real_of_int (time_minus a b)" "real_of_int (time_minus a b) < 10000000"
    by linarith+
  then show ?thesis
    by (simp add: seconds_def abs_less_iff)
qed

lemmas example_simps = filled_def arrivals_def exampleNode_def exampleCollaborators_def
  laserCloudSharpHandler_def laserCloudLessSharpHandler_def laserCloudFlatHandler_def
  laserCloudLessFlatHandler_def laserCloudFullResHandler_def imuTransHandler_def

lemma filled_ready: "hasNewData (filled 0 0 0 0 0 0)"
  by (simp add: hasNewData_window allNew_def allInAnchorWindow_def inAnchorWindow_def
      streams_def example_simps time_minus_def)

text \<open>
  C1, as the code has it.  \<^verbatim>\<open>hasNewData\<close> is true if and only if the six
  flags are set and the time stamp of each stream is in the window around the
  time stamp of the surf-points-less-flat stream: at most 0.005 seconds before
  it and less than 0.005 seconds after it (the \<^verbatim>\<open>double\<close> of a difference of
  -0.005 seconds is below 0.005 in magnitude, the one of 0.005 seconds is
  not).  So it is true when the flags are set and the largest difference between
  two streams is below 0.005 seconds, and when it is true the largest
  difference between two streams is below 0.010 seconds.  Clearing the flag of
  any single stream makes it false.
\<close>

theorem hasNewData_anchor_window:
  "(hasNewData s \<longleftrightarrow> allNew s \<and> allInAnchorWindow s) \<and>
   (allNew s \<and> maxPairwiseDelta s < 5 / 1000 \<longrightarrow> hasNewData s) \<and>
   (hasNewData s \<longrightarrow> maxPairwiseDelta s < 10 / 1000) \<and>
   (\<forall>i. \<not> hasNewData (clearFlag i s))"
proof (intro conjI allI impI)
  show "hasNewData s \<longleftrightarrow> allNew s \<and> allInAnchorWindow s"
    by (rule hasNewData_window)
next
  assume a: "allNew s \<and> maxPairwiseDelta s < 5 / 1000"
  have p: "\<forall>i j. \<bar>seconds (time_minus (timeOf i s) (timeOf j s))\<bar> < 5 / 1000"
    using a maxPairwiseDelta_less [of s "5 / 1000"] by blast
  have "\<forall>i. newFlag i s"
    using a allNew_iff [of s] by blast
  moreover have "inAnchorWindow (time_minus (timeOf i s) (timeSurfPointsLessFlat s))" for i
    using p [rule_format, of i SurfPointsLessFlat] by (intro seconds_window) simp
  ultimately show "hasNewData s" by (simp only: hasNewData_iff) blast
next
  assume "hasNewData s"
  then have t: "\<And>i. inAnchorWindow (time_minus (timeOf i s) (timeSurfPointsLessFlat s))"
    by (simp only: hasNewData_iff)
  have "\<bar>seconds (time_minus (timeOf i s) (timeOf j s))\<bar> < 10 / 1000" for i j
    using t [of i] t [of j] by (rule window_pairwise)
  then show "maxPairwiseDelta s < 10 / 1000"
    by (simp only: maxPairwiseDelta_less) blast
next
  fix i
  show "\<not> hasNewData (clearFlag i s)"
    using newFlag_clearFlag [of i s] by (simp only: hasNewData_iff) blast
qed

text \<open>
  The theorem at the six time stamps 10.000, 10.001, 10.002, 10.003, 10.0005
  and 10.0049 seconds of section 8 of the specification, given in nanoseconds,
  and at five streams at 10.000 seconds with the surf-points-less-flat stream
  at 10.005 seconds.
\<close>

theorem hasNewData_anchor_window_witness:
  "allNew (filled 10000000000 10001000000 10002000000 10003000000 10000500000 10004900000) \<and>
   maxPairwiseDelta (filled 10000000000 10001000000 10002000000 10003000000 10000500000 10004900000)
     < 5 / 1000 \<and>
   hasNewData (filled 10000000000 10001000000 10002000000 10003000000 10000500000 10004900000) \<and>
   maxPairwiseDelta (filled 10000000000 10001000000 10002000000 10003000000 10000500000 10004900000)
     < 10 / 1000 \<and>
   \<not> hasNewData (clearFlag ImuTrans
       (filled 10000000000 10001000000 10002000000 10003000000 10000500000 10004900000)) \<and>
   allNew (filled 10000000000 10000000000 10000000000 10005000000 10000000000 10000000000) \<and>
   allInAnchorWindow (filled 10000000000 10000000000 10000000000 10005000000 10000000000 10000000000) \<and>
   hasNewData (filled 10000000000 10000000000 10000000000 10005000000 10000000000 10000000000)"
proof -
  let ?s = "filled 10000000000 10001000000 10002000000 10003000000 10000500000 10004900000"
  let ?t = "filled 10000000000 10000000000 10000000000 10005000000 10000000000 10000000000"
  have a: "allNew ?s" "allNew ?t"
    by (simp_all add: allNew_def streams_def example_simps)
  have m: "maxPairwiseDelta ?s < 5 / 1000"
    by (simp add: maxPairwiseDelta_def streams_def example_simps seconds_def time_minus_def)
  have w: "allInAnchorWindow ?t"
    by (simp add: allInAnchorWindow_def inAnchorWindow_def streams_def example_simps time_minus_def)
  show ?thesis
    using a m w hasNewData_anchor_window [of ?s] hasNewData_anchor_window [of ?t] by blast
qed

text \<open>
  C1 as the specification states it fails in both directions.  With the time
  stamps 10.004 and 9.996 seconds on two streams and 10.000 seconds on the
  other four, every stream is within 0.004 seconds of the stream that
  \<^verbatim>\<open>hasNewData\<close> compares with, and \<^verbatim>\<open>hasNewData\<close> is true, while two streams
  are 0.008 seconds apart.  With 10.005 seconds on the IMU stream and 10.000
  seconds on the other five, the largest difference is exactly the tolerance,
  and \<^verbatim>\<open>hasNewData\<close> is false.
\<close>

theorem isReady_pairwise_counterexample:
  "hasNewData (filled 10004000000 9996000000 10000000000 10000000000 10000000000 10000000000) \<and>
   \<not> spec_isReady (5 / 1000)
       (filled 10004000000 9996000000 10000000000 10000000000 10000000000 10000000000) \<and>
   \<not> hasNewData (filled 10000000000 10000000000 10000000000 10000000000 10000000000 10005000000) \<and>
   spec_isReady (5 / 1000)
       (filled 10000000000 10000000000 10000000000 10000000000 10000000000 10005000000)"
  by (simp add: hasNewData_window allInAnchorWindow_def inAnchorWindow_def spec_isReady_def
      allNew_def maxPairwiseDelta_def streams_def example_simps seconds_def time_minus_def)

section \<open>The processing step and the flags\<close>

lemma newFlag_publishResult: "newFlag i (fst (publishResult C s)) = newFlag i s"
  by (cases i) (simp_all add: publishResult_def Let_def)

lemma newFlag_reset: "\<not> newFlag i (reset s)"
  by (cases i) (simp_all add: reset_def)

lemma newFlag_base_update: "newFlag i (s\<lparr> base := b \<rparr>) = newFlag i s"
  by (cases i) simp_all

lemma newFlag_process: "newFlag i (fst (process C s)) \<longleftrightarrow> newFlag i s \<and> \<not> hasNewData s"
  by (auto simp: process_def Let_def newFlag_publishResult newFlag_base_update newFlag_reset
      dest: hasNewData_flags)

lemma newFlag_handler: "newFlag i (handler C j msg s) \<longleftrightarrow> i = j \<or> newFlag i s"
  by (cases i; cases j)
     (simp_all add: laserCloudSharpHandler_def laserCloudLessSharpHandler_def
        laserCloudFlatHandler_def laserCloudLessFlatHandler_def laserCloudFullResHandler_def
        imuTransHandler_def)

lemma newFlag_step:
  "newFlag i (step C e s) \<Longrightarrow> newFlag i s \<or> (\<exists>msg. e = Arrival i msg)"
  by (cases e) (auto simp: newFlag_handler newFlag_process)

lemma newFlag_run:
  "newFlag i (run C es s) \<Longrightarrow> newFlag i s \<or> (\<exists>msg. Arrival i msg \<in> set es)"
proof (induction es arbitrary: s)
  case Nil
  then show ?case by simp
next
  case (Cons e es)
  from Cons.prems have "newFlag i (run C es (step C e s))" by simp
  then have "newFlag i (step C e s) \<or> (\<exists>msg. Arrival i msg \<in> set es)"
    by (rule Cons.IH)
  then show ?case
    using newFlag_step [of i C e s] by auto
qed

lemma flag_cleared_only_by_process:
  "newFlag i s \<Longrightarrow> \<not> newFlag i (step C e s) \<Longrightarrow> e = ProcessCall \<and> hasNewData s"
  by (cases e) (auto simp: newFlag_handler newFlag_process)

text \<open>
  C7.  When the data is ready, one call of \<^verbatim>\<open>process\<close> leaves the six flags
  cleared, so \<^verbatim>\<open>hasNewData\<close> is false after it; after any further callbacks
  and calls of \<^verbatim>\<open>process\<close>, \<^verbatim>\<open>hasNewData\<close> can be true only if a message has
  arrived on each of the six streams.  A flag that is set before an event and
  cleared after it was cleared by a call of \<^verbatim>\<open>process\<close> that found the data
  ready.
\<close>

theorem process_clears_flags:
  "hasNewData s \<Longrightarrow>
     (\<forall>i. \<not> newFlag i (fst (process C s))) \<and>
     \<not> hasNewData (fst (process C s)) \<and>
     (\<forall>es. hasNewData (run C es (fst (process C s))) \<longrightarrow> (\<forall>i. \<exists>msg. Arrival i msg \<in> set es)) \<and>
     (\<forall>e s0 i. newFlag i s0 \<and> \<not> newFlag i (step C e s0) \<longrightarrow> e = ProcessCall \<and> hasNewData s0)"
proof (intro conjI allI impI)
  assume r: "hasNewData s"
  show c: "\<not> newFlag i (fst (process C s))" for i
    using r by (simp add: newFlag_process)
  show "\<not> hasNewData (fst (process C s))"
    using c [of ImuTrans] hasNewData_flags by blast
  show "\<exists>msg. Arrival i msg \<in> set es" if "hasNewData (run C es (fst (process C s)))" for es i
    using newFlag_run [OF hasNewData_flags [OF that], of i] c [of i] by blast
next
  fix e :: "'a Event" and s0 :: "('a, 'b) LaserOdometry" and i
  assume "newFlag i s0 \<and> \<not> newFlag i (step C e s0)"
  then show "e = ProcessCall" and "hasNewData s0"
    using flag_cleared_only_by_process by blast+
qed

text \<open>
  The theorem at a node with its data ready: after the call of \<^verbatim>\<open>process\<close>,
  new messages on five of the six streams do not make the data ready.
\<close>

theorem process_clears_flags_witness:
  "hasNewData (filled 0 0 0 0 0 0) \<and>
   \<not> hasNewData (fst (process exampleCollaborators (filled 0 0 0 0 0 0))) \<and>
   \<not> hasNewData (run exampleCollaborators (butlast (arrivals 1 1 1 1 1 1))
        (fst (process exampleCollaborators (filled 0 0 0 0 0 0))))"
proof -
  have r: "hasNewData (filled 0 0 0 0 0 0)"
    by (rule filled_ready)
  have n: "\<not> (\<exists>msg. Arrival ImuTrans msg \<in> set (butlast (arrivals 1 1 1 1 1 1)))"
    by (simp add: arrivals_def)
  show ?thesis
    using r n process_clears_flags [OF r, of exampleCollaborators] by blast
qed

text \<open>
  C9.  When \<^verbatim>\<open>hasNewData\<close> is false, a call of \<^verbatim>\<open>process\<close> returns the object as
  it was and publishes nothing.
\<close>

theorem process_idle_noop: "\<not> hasNewData s \<Longrightarrow> process C s = (s, [])"
  by (simp add: process_def)

text \<open>The theorem at the example node, which has received no message.\<close>

theorem process_idle_noop_witness:
  "\<not> hasNewData exampleNode \<and> process exampleCollaborators exampleNode = (exampleNode, [])"
proof -
  have n: "\<not> hasNewData exampleNode"
    by (simp add: hasNewData_def exampleNode_def)
  show ?thesis
    using n process_idle_noop [OF n, of exampleCollaborators] by blast
qed

section \<open>Configuration\<close>

lemma andThen_None: "andThen (None, s) f = f s"
  by (simp add: andThen_def)

lemma andThen_Some: "andThen (Some e, s) f = (Some e, s)"
  by (simp add: andThen_def)

lemmas getParam_defs = getParam_scanPeriod_def getParam_ioRatio_def
  getParam_maxIterationsOdom_def getParam_deltaTAbortOdom_def getParam_deltaRAbortOdom_def

lemma setup_returns: "returns_true (LaserOdometry_setup P s) \<longleftrightarrow> paramsInRange P"
  unfolding returns_true_def LaserOdometry_setup_def paramsInRange_def inRangeInt_def
    inRangeReal_def getParam_defs
  by (auto simp: andThen_None andThen_Some split: option.splits)

lemma setup_defaults:
  "(p_scanPeriod P = None \<longrightarrow> scanPeriod (base (snd (LaserOdometry_setup P s))) = scanPeriod (base s)) \<and>
   (p_ioRatio P = None \<longrightarrow> ioRatio (snd (LaserOdometry_setup P s)) = ioRatio s) \<and>
   (p_maxIterationsOdom P = None \<longrightarrow>
      maxIterations (base (snd (LaserOdometry_setup P s))) = maxIterations (base s)) \<and>
   (p_deltaTAbortOdom P = None \<longrightarrow> deltaTAbort (base (snd (LaserOdometry_setup P s))) = deltaTAbort (base s)) \<and>
   (p_deltaRAbortOdom P = None \<longrightarrow> deltaRAbort (base (snd (LaserOdometry_setup P s))) = deltaRAbort (base s))"
  unfolding LaserOdometry_setup_def getParam_defs getParam_frames_def advertise_subscribe_def
  by (auto simp: andThen_None andThen_Some Let_def split: option.splits)

text \<open>
  C8.  \<^verbatim>\<open>LaserOdometry::setup\<close> returns true if and only if every provided
  parameter is in range: it returns false, after reporting the error, when
  \<^verbatim>\<open>scanPeriod\<close>, \<^verbatim>\<open>deltaTAbortOdom\<close> or \<^verbatim>\<open>deltaRAbortOdom\<close> is provided and
  not above 0, or \<^verbatim>\<open>ioRatio\<close> or \<^verbatim>\<open>maxIterationsOdom\<close> is provided and below
  1.  A parameter that is not provided keeps the value the object had.
\<close>

theorem LaserOdometry_setup_validates:
  "(returns_true (LaserOdometry_setup P s) \<longleftrightarrow> paramsInRange P) \<and>
   (p_scanPeriod P = None \<longrightarrow> scanPeriod (base (snd (LaserOdometry_setup P s))) = scanPeriod (base s)) \<and>
   (p_ioRatio P = None \<longrightarrow> ioRatio (snd (LaserOdometry_setup P s)) = ioRatio s) \<and>
   (p_maxIterationsOdom P = None \<longrightarrow>
      maxIterations (base (snd (LaserOdometry_setup P s))) = maxIterations (base s)) \<and>
   (p_deltaTAbortOdom P = None \<longrightarrow> deltaTAbort (base (snd (LaserOdometry_setup P s))) = deltaTAbort (base s)) \<and>
   (p_deltaRAbortOdom P = None \<longrightarrow> deltaRAbort (base (snd (LaserOdometry_setup P s))) = deltaRAbort (base s))"
  using setup_returns [of P s] setup_defaults [of P s] by blast

text \<open>
  The theorem at the example node: without parameters, with \<^verbatim>\<open>ioRatio\<close> = 0,
  and with \<^verbatim>\<open>scanPeriod\<close> = 0.
\<close>

theorem LaserOdometry_setup_validates_witness:
  "returns_true (LaserOdometry_setup noParams exampleNode) \<and>
   ioRatio (snd (LaserOdometry_setup noParams exampleNode)) = 2 \<and>
   \<not> paramsInRange (noParams\<lparr> p_ioRatio := Some 0 \<rparr>) \<and>
   \<not> returns_true (LaserOdometry_setup (noParams\<lparr> p_ioRatio := Some 0 \<rparr>) exampleNode) \<and>
   \<not> paramsInRange (noParams\<lparr> p_scanPeriod := Some 0 \<rparr>) \<and>
   \<not> returns_true (LaserOdometry_setup (noParams\<lparr> p_scanPeriod := Some 0 \<rparr>) exampleNode)"
proof -
  have a: "paramsInRange noParams" "p_ioRatio noParams = None"
    by (simp_all add: paramsInRange_def inRangeInt_def inRangeReal_def noParams_def)
  have b: "\<not> paramsInRange (noParams\<lparr> p_ioRatio := Some 0 \<rparr>)"
    "\<not> paramsInRange (noParams\<lparr> p_scanPeriod := Some 0 \<rparr>)"
    by (simp_all add: paramsInRange_def inRangeInt_def inRangeReal_def noParams_def)
  have c: "ioRatio exampleNode = 2" by (simp add: exampleNode_def)
  show ?thesis
    using a b c LaserOdometry_setup_validates [of noParams exampleNode]
      LaserOdometry_setup_validates [of "noParams\<lparr> p_ioRatio := Some 0 \<rparr>" exampleNode]
      LaserOdometry_setup_validates [of "noParams\<lparr> p_scanPeriod := Some 0 \<rparr>" exampleNode]
    by simp
qed

text \<open>
  C10.  \<^verbatim>\<open>TransformMaintenance::setup\<close> returns true for every configuration
  and every state of the node, whereas \<^verbatim>\<open>LaserOdometry::setup\<close> returns false
  for a configuration with \<^verbatim>\<open>ioRatio\<close> = 0.
\<close>

theorem TransformMaintenance_setup_never_fails:
  "fst (TransformMaintenance_setup P s) \<and>
   \<not> returns_true (LaserOdometry_setup (noParams\<lparr> p_ioRatio := Some 0 \<rparr>) s')"
proof
  show "fst (TransformMaintenance_setup P s)"
    by (simp add: TransformMaintenance_setup_def Let_def)
  have "\<not> paramsInRange (noParams\<lparr> p_ioRatio := Some 0 \<rparr>)"
    by (simp add: paramsInRange_def inRangeInt_def inRangeReal_def noParams_def)
  then show "\<not> returns_true (LaserOdometry_setup (noParams\<lparr> p_ioRatio := Some 0 \<rparr>) s')"
    by (simp add: setup_returns)
qed


section \<open>The throttled publisher\<close>

text \<open>
  What a completed cycle publishes, in terms of the stored ratio; and in terms
  of the configured ratio when it fits the 16 bits of \<^verbatim>\<open>_ioRatio\<close>.
\<close>

lemma publishResult_odometry: "publishesOdometry (snd (publishResult C s))"
  by (simp add: publishResult_def publishesOdometry_def Let_def)

lemma publishResult_cloud:
  "publishesCloud p (snd (publishResult C s)) \<longleftrightarrow>
     unat (ioRatio s) < 2 \<or> frameCount (base s) mod unat (ioRatio s) = 1"
  by (cases p) (simp_all add: publishResult_def publishesCloud_def Let_def)

lemma cycle_throttle:
  assumes "hasNewData s"
  shows "publishesOdometry (snd (process C s))"
    and "publishesCloud p (snd (process C s)) \<longleftrightarrow>
           unat (ioRatio s) < 2 \<or> frameCount (basicProcess C (base s)) mod unat (ioRatio s) = 1"
  using assms
  by (simp_all add: process_def Let_def publishResult_odometry publishResult_cloud reset_def)

lemma cycle_frameCount:
  assumes "hasNewData s"
  shows "frameCount (base (fst (process C s))) = frameCount (basicProcess C (base s))"
  using assms by (simp add: process_def Let_def publishResult_def reset_def)

lemma setup_stores_ratio:
  assumes "p_ioRatio P = Some k" and "returns_true (LaserOdometry_setup P s)"
  shows "ioRatio (snd (LaserOdometry_setup P s)) = word_of_int k"
  using assms
  unfolding returns_true_def LaserOdometry_setup_def getParam_defs getParam_frames_def
    advertise_subscribe_def
  by (auto simp: andThen_None andThen_Some Let_def split: option.splits if_splits)

lemma configuredNode_ready:
  assumes "1 \<le> k"
  shows "hasNewData (configuredNode k n)"
    and "ioRatio (configuredNode k n) = word_of_int k"
    and "frameCount (basicProcess exampleCollaborators (base (configuredNode k n))) = Suc n"
  using assms
  by (simp_all add: configuredNode_def hasNewData_windows inAnchorWindow_def time_minus_def
      LaserOdometry_setup_def getParam_defs getParam_frames_def advertise_subscribe_def
      andThen_None noParams_def throttled_def Let_def example_simps)

lemma unat_stored_ratio:
  assumes "0 \<le> k" and "k < 65536"
  shows "unat (word_of_int k :: 16 word) = nat k"
proof -
  have "uint (word_of_int k :: 16 word) = k mod 2 ^ 16"
    by (simp add: uint_word_of_int)
  also have "\<dots> = k" using assms by simp
  finally show ?thesis by (simp add: unat_eq_nat_uint)
qed

lemma cycle_throttle_in_range:
  assumes r: "hasNewData s" and k: "1 \<le> k" "k < 65536" and i: "ioRatio s = word_of_int k"
  shows "publishesCloud p (snd (process C s)) \<longleftrightarrow>
           spec_heavyDue k (frameCount (basicProcess C (base s)))"
proof -
  have u: "unat (ioRatio s) = nat k"
    using k by (simp add: i unat_stored_ratio)
  have "(n mod nat k = 1) = (int n mod k = 1)" for n
  proof -
    have "int (n mod nat k) = int n mod k"
      using k by (simp add: zmod_int)
    then show ?thesis by (metis int_ops(2) of_nat_eq_iff)
  qed
  moreover have "nat k < 2 \<longleftrightarrow> k < 2" using k by linarith
  ultimately show ?thesis
    by (simp add: cycle_throttle(2) [OF r] u spec_heavyDue_def)
qed

lemma configuredNode_three:
  "hasNewData (configuredNode 3 n)"
  "ioRatio (configuredNode 3 n) = word_of_int 3"
  "frameCount (base (fst (process exampleCollaborators (configuredNode 3 n)))) = Suc n"
proof -
  have k: "(1::int) \<le> 3" by simp
  note c = configuredNode_ready [OF k]
  show "hasNewData (configuredNode 3 n)" by (rule c(1))
  show "ioRatio (configuredNode 3 n) = word_of_int 3" by (rule c(2))
  show "frameCount (base (fst (process exampleCollaborators (configuredNode 3 n)))) = Suc n"
    by (simp add: cycle_frameCount [OF c(1)] c(3))
qed

text \<open>
  C2.  A completed cycle, that is \<^verbatim>\<open>process\<close> on a ready node, publishes the
  odometry message, and for a configured ratio k from 1 to 65535, stored in the
  16-bit \<^verbatim>\<open>_ioRatio\<close>, it publishes each of the three clouds if and only if
  k < 2 or n mod k = 1, where n is the frame count of the cycle.  At the
  configured ratio 65539 the claim fails: \<^verbatim>\<open>setup\<close> accepts the ratio, which
  is at least 1, and stores it as 3; in the cycle with the frame count 4 the
  three clouds are published, since 4 mod 3 = 1, while by the specification
  they are not due, 65539 being not below 2 and 4 mod 65539 being 4.
\<close>

theorem ioRatio_narrowing_counters_throttle:
  "(hasNewData s \<and> 1 \<le> k \<and> k < 65536 \<and> ioRatio s = word_of_int k \<longrightarrow>
      publishesOdometry (snd (process C s)) \<and>
      (publishesCloud p (snd (process C s)) \<longleftrightarrow>
         spec_heavyDue k (frameCount (base (fst (process C s)))))) \<and>
   returns_true (LaserOdometry_setup (noParams\<lparr> p_ioRatio := Some 65539 \<rparr>) (throttled 2 3)) \<and>
   ioRatio (configuredNode 65539 3) = 3 \<and>
   hasNewData (configuredNode 65539 3) \<and>
   frameCount (base (fst (process exampleCollaborators (configuredNode 65539 3)))) = 4 \<and>
   publishesOdometry (snd (process exampleCollaborators (configuredNode 65539 3))) \<and>
   publishesCloud PubLaserCloudCornerLast (snd (process exampleCollaborators (configuredNode 65539 3))) \<and>
   publishesCloud PubLaserCloudSurfLast (snd (process exampleCollaborators (configuredNode 65539 3))) \<and>
   publishesCloud PubLaserCloudFullRes (snd (process exampleCollaborators (configuredNode 65539 3))) \<and>
   \<not> spec_heavyDue 65539 4"
proof -
  have g: "publishesOdometry (snd (process C s)) \<and>
      (publishesCloud p (snd (process C s)) \<longleftrightarrow>
         spec_heavyDue k (frameCount (base (fst (process C s)))))"
    if "hasNewData s" "1 \<le> k" "k < 65536" "ioRatio s = word_of_int k"
    using that
    by (simp add: cycle_throttle(1) cycle_throttle_in_range cycle_frameCount)
  have k: "(1::int) \<le> 65539" by simp
  note c = configuredNode_ready [OF k, of 3]
  have r: "returns_true (LaserOdometry_setup (noParams\<lparr> p_ioRatio := Some 65539 \<rparr>) (throttled 2 3))"
    by (simp add: setup_returns paramsInRange_def inRangeInt_def inRangeReal_def noParams_def)
  have w: "ioRatio (configuredNode 65539 3) = 3"
    by (simp add: c(2))
  have f: "frameCount (base (fst (process exampleCollaborators (configuredNode 65539 3)))) = 4"
    by (simp add: cycle_frameCount [OF c(1)] c(3))
  have q: "publishesCloud q (snd (process exampleCollaborators (configuredNode 65539 3)))" for q
    by (simp add: cycle_throttle(2) [OF c(1)] c(3) w)
  have n: "\<not> spec_heavyDue 65539 4"
    by (simp add: spec_heavyDue_def)
  show ?thesis
    using g r w c(1) f q n cycle_throttle(1) [OF c(1)] by blast
qed

theorem ioRatio_narrowing_counters_throttle_witness:
  "hasNewData (configuredNode 3 0) \<and> (1::int) \<le> 3 \<and> (3::int) < 65536 \<and>
   ioRatio (configuredNode 3 0) = word_of_int 3 \<and>
   publishesOdometry (snd (process exampleCollaborators (configuredNode 3 0))) \<and>
   publishesCloud PubLaserCloudFullRes (snd (process exampleCollaborators (configuredNode 3 0))) \<and>
   \<not> publishesCloud PubLaserCloudFullRes (snd (process exampleCollaborators (configuredNode 3 1))) \<and>
   \<not> publishesCloud PubLaserCloudFullRes (snd (process exampleCollaborators (configuredNode 3 2))) \<and>
   publishesCloud PubLaserCloudFullRes (snd (process exampleCollaborators (configuredNode 3 3))) \<and>
   \<not> publishesCloud PubLaserCloudFullRes (snd (process exampleCollaborators (configuredNode 3 4))) \<and>
   \<not> publishesCloud PubLaserCloudFullRes (snd (process exampleCollaborators (configuredNode 3 5))) \<and>
   publishesCloud PubLaserCloudFullRes (snd (process exampleCollaborators (configuredNode 3 6)))"
  using ioRatio_narrowing_counters_throttle [of "configuredNode 3 0" 3 exampleCollaborators PubLaserCloudFullRes]
    ioRatio_narrowing_counters_throttle [of "configuredNode 3 1" 3 exampleCollaborators PubLaserCloudFullRes]
    ioRatio_narrowing_counters_throttle [of "configuredNode 3 2" 3 exampleCollaborators PubLaserCloudFullRes]
    ioRatio_narrowing_counters_throttle [of "configuredNode 3 3" 3 exampleCollaborators PubLaserCloudFullRes]
    ioRatio_narrowing_counters_throttle [of "configuredNode 3 4" 3 exampleCollaborators PubLaserCloudFullRes]
    ioRatio_narrowing_counters_throttle [of "configuredNode 3 5" 3 exampleCollaborators PubLaserCloudFullRes]
    ioRatio_narrowing_counters_throttle [of "configuredNode 3 6" 3 exampleCollaborators PubLaserCloudFullRes]
  by (simp add: configuredNode_three spec_heavyDue_def)

section \<open>The frame convention adapter\<close>

subsection \<open>Half angles and the matrix of a roll-pitch-yaw quaternion\<close>

lemma half_angle:
  fixes t :: real
  shows "(sin (t * (1/2)))\<^sup>2 + (cos (t * (1/2)))\<^sup>2 = 1"
    and "cos t = (cos (t * (1/2)))\<^sup>2 - (sin (t * (1/2)))\<^sup>2"
    and "sin t = 2 * sin (t * (1/2)) * cos (t * (1/2))"
proof -
  show "(sin (t * (1/2)))\<^sup>2 + (cos (t * (1/2)))\<^sup>2 = 1" by simp
  have "cos t = cos (2 * (t * (1/2)))" by simp
  also have "\<dots> = (cos (t * (1/2)))\<^sup>2 - (sin (t * (1/2)))\<^sup>2" by (rule cos_double)
  finally show "cos t = (cos (t * (1/2)))\<^sup>2 - (sin (t * (1/2)))\<^sup>2" .
  have "sin t = sin (2 * (t * (1/2)))" by simp
  also have "\<dots> = 2 * sin (t * (1/2)) * cos (t * (1/2))" by (rule sin_double)
  finally show "sin t = 2 * sin (t * (1/2)) * cos (t * (1/2))" .
qed

lemma rpy_components:
  fixes r p y :: real
  defines "cR \<equiv> cos (r * (1/2))" and "sR \<equiv> sin (r * (1/2))"
    and "cP \<equiv> cos (p * (1/2))" and "sP \<equiv> sin (p * (1/2))"
    and "cY \<equiv> cos (y * (1/2))" and "sY \<equiv> sin (y * (1/2))"
  shows "createQuaternionFromRPY r p y =
     \<lparr> q_x = sR * cP * cY - cR * sP * sY, q_y = cR * sP * cY + sR * cP * sY,
       q_z = cR * cP * sY - sR * sP * cY, q_w = cR * cP * cY + sR * sP * sY \<rparr>"
  by (simp add: createQuaternionFromRPY_def Let_def assms)

lemma length2_rpy: "length2 (createQuaternionFromRPY r p y) = 1"
proof -
  define cR sR cP sP cY sY where "cR = cos (r * (1/2))" and "sR = sin (r * (1/2))"
    and "cP = cos (p * (1/2))" and "sP = sin (p * (1/2))"
    and "cY = cos (y * (1/2))" and "sY = sin (y * (1/2))"
  note d = cR_def sR_def cP_def sP_def cY_def sY_def
  have R: "sR\<^sup>2 + cR\<^sup>2 = 1" and P: "sP\<^sup>2 + cP\<^sup>2 = 1" and Y: "sY\<^sup>2 + cY\<^sup>2 = 1"
    unfolding d by (rule half_angle(1))+
  have "length2 (createQuaternionFromRPY r p y) =
        (sR * cP * cY - cR * sP * sY)\<^sup>2 + (cR * sP * cY + sR * cP * sY)\<^sup>2 +
        (cR * cP * sY - sR * sP * cY)\<^sup>2 + (cR * cP * cY + sR * sP * sY)\<^sup>2"
    by (simp add: length2_def rpy_components power2_eq_square d)
  also have "\<dots> = 1"
    using R P Y by algebra
  finally show ?thesis .
qed

lemma matrix_of_unit:
  assumes "length2 q = 1"
  shows "Matrix3x3_of q =
     \<lparr> el00 = 1 - 2 * ((q_y q)\<^sup>2 + (q_z q)\<^sup>2), el01 = 2 * (q_x q * q_y q - q_w q * q_z q),
       el02 = 2 * (q_x q * q_z q + q_w q * q_y q),
       el10 = 2 * (q_x q * q_y q + q_w q * q_z q), el11 = 1 - 2 * ((q_x q)\<^sup>2 + (q_z q)\<^sup>2),
       el12 = 2 * (q_y q * q_z q - q_w q * q_x q),
       el20 = 2 * (q_x q * q_z q - q_w q * q_y q), el21 = 2 * (q_y q * q_z q + q_w q * q_x q),
       el22 = 1 - 2 * ((q_x q)\<^sup>2 + (q_y q)\<^sup>2) \<rparr>"
  using assms by (simp add: Matrix3x3_of_def Let_def power2_eq_square algebra_simps)

lemma rpy_matrix: "Matrix3x3_of (createQuaternionFromRPY r p y) = rpyMatrix r p y"
proof -
  define cR sR cP sP cY sY where "cR = cos (r * (1/2))" and "sR = sin (r * (1/2))"
    and "cP = cos (p * (1/2))" and "sP = sin (p * (1/2))"
    and "cY = cos (y * (1/2))" and "sY = sin (y * (1/2))"
  note d = cR_def sR_def cP_def sP_def cY_def sY_def
  have R: "sR\<^sup>2 + cR\<^sup>2 = 1" and P: "sP\<^sup>2 + cP\<^sup>2 = 1" and Y: "sY\<^sup>2 + cY\<^sup>2 = 1"
    unfolding d by (rule half_angle(1))+
  have cr: "cos r = cR\<^sup>2 - sR\<^sup>2" and sr: "sin r = 2 * sR * cR"
    and cp: "cos p = cP\<^sup>2 - sP\<^sup>2" and sp: "sin p = 2 * sP * cP"
    and cy: "cos y = cY\<^sup>2 - sY\<^sup>2" and sy: "sin y = 2 * sY * cY"
    unfolding d by (rule half_angle(2) half_angle(3))+
  define qx qy qz qw where "qx = sR * cP * cY - cR * sP * sY"
    and "qy = cR * sP * cY + sR * cP * sY"
    and "qz = cR * cP * sY - sR * sP * cY"
    and "qw = cR * cP * cY + sR * sP * sY"
  note qd = qx_def qy_def qz_def qw_def
  have q: "createQuaternionFromRPY r p y = \<lparr> q_x = qx, q_y = qy, q_z = qz, q_w = qw \<rparr>"
    by (simp add: rpy_components d qd)
  have u: "length2 \<lparr> q_x = qx, q_y = qy, q_z = qz, q_w = qw \<rparr> = 1"
    using length2_rpy [of r p y] by (simp add: q)
  have e00: "1 - 2 * (qy\<^sup>2 + qz\<^sup>2) = cos p * cos y"
    unfolding qd cp cy using R P Y by algebra
  have e01: "2 * (qx * qy - qw * qz) = sin r * sin p * cos y - cos r * sin y"
    unfolding qd cr sr sp cy sy using R P Y by algebra
  have e02: "2 * (qx * qz + qw * qy) = cos r * sin p * cos y + sin r * sin y"
    unfolding qd cr sr sp cy sy using R P Y by algebra
  have e10: "2 * (qx * qy + qw * qz) = cos p * sin y"
    unfolding qd cp sy using R P Y by algebra
  have e11: "1 - 2 * (qx\<^sup>2 + qz\<^sup>2) = sin r * sin p * sin y + cos r * cos y"
    unfolding qd cr sr sp cy sy using R P Y by algebra
  have e12: "2 * (qy * qz - qw * qx) = cos r * sin p * sin y - sin r * cos y"
    unfolding qd cr sr sp cy sy using R P Y by algebra
  have e20: "2 * (qx * qz - qw * qy) = - sin p"
    unfolding qd sp using R P Y by algebra
  have e21: "2 * (qy * qz + qw * qx) = sin r * cos p"
    unfolding qd sr cp using R P Y by algebra
  have e22: "1 - 2 * (qx\<^sup>2 + qy\<^sup>2) = cos r * cos p"
    unfolding qd cr cp using R P Y by algebra
  show ?thesis
    unfolding q matrix_of_unit [OF u] rpyMatrix_def
    by (simp only: Quaternion.simps e00 e01 e02 e10 e11 e12 e20 e21 e22)
qed

subsection \<open>Angles read back from a rotation matrix\<close>

lemma atan2_unit:
  assumes "x\<^sup>2 + y\<^sup>2 = 1"
  shows "cos (atan2 y x) = x" and "sin (atan2 y x) = y"
proof -
  have sq: "sqrt (1 + (y / x)\<^sup>2) = 1 / \<bar>x\<bar>" if "x \<noteq> 0"
  proof -
    have "1 + (y / x)\<^sup>2 = (x\<^sup>2 + y\<^sup>2) / x\<^sup>2"
      using that by (simp add: field_simps power2_eq_square)
    also have "\<dots> = (1 / \<bar>x\<bar>)\<^sup>2"
      by (simp add: assms power_divide)
    finally have "sqrt (1 + (y / x)\<^sup>2) = sqrt ((1 / \<bar>x\<bar>)\<^sup>2)" by simp
    then show ?thesis by simp
  qed
  have c: "cos (arctan (y / x)) = \<bar>x\<bar>" and s: "sin (arctan (y / x)) = y / x * \<bar>x\<bar>" if "x \<noteq> 0"
    using sq [OF that] by (simp_all add: cos_arctan sin_arctan)
  consider "0 < x" | "x < 0" | "x = 0" by linarith
  then have "cos (atan2 y x) = x \<and> sin (atan2 y x) = y"
  proof cases
    case 1
    then show ?thesis using c s by (simp add: atan2_def)
  next
    case 2
    then show ?thesis using c s by (simp add: atan2_def)
  next
    case 3
    with assms have "y\<^sup>2 = 1" by simp
    then have "y = 1 \<or> y = -1" by (simp add: power2_eq_1_iff)
    then show ?thesis using 3 by (auto simp: atan2_def)
  qed
  then show "cos (atan2 y x) = x" and "sin (atan2 y x) = y" by simp_all
qed

lemma quotient_eq:
  fixes e :: real
  assumes "k \<noteq> 0" and "e * (k * k) = n"
  shows "n / (k * k) = e"
  using assms by (auto simp: field_simps)

lemma four_squares_zero:
  fixes x y z w :: real
  assumes "x\<^sup>2 + y\<^sup>2 + z\<^sup>2 + w\<^sup>2 = 0"
  shows "x = 0 \<and> y = 0 \<and> z = 0 \<and> w = 0"
proof -
  have "0 \<le> x\<^sup>2" "0 \<le> y\<^sup>2" "0 \<le> z\<^sup>2" "0 \<le> w\<^sup>2" by simp_all
  with assms have "x\<^sup>2 = 0" "y\<^sup>2 = 0" "z\<^sup>2 = 0" "w\<^sup>2 = 0" by linarith+
  then show ?thesis by simp
qed

text \<open>
  The entries of the matrix of a unit quaternion: rows and columns have length
  1, and each entry is its cofactor.
\<close>

lemma unit_matrix_entries:
  assumes u: "length2 q = 1"
  defines "m \<equiv> Matrix3x3_of q"
  shows "(el21 m)\<^sup>2 + (el22 m)\<^sup>2 = 1 - (el20 m)\<^sup>2"
    and "(el00 m)\<^sup>2 + (el10 m)\<^sup>2 = 1 - (el20 m)\<^sup>2"
    and "(el02 m)\<^sup>2 + (el01 m)\<^sup>2 = 1 - (el00 m)\<^sup>2"
    and "el01 m * (1 - (el20 m)\<^sup>2) = - el21 m * el20 m * el00 m - el22 m * el10 m"
    and "el02 m * (1 - (el20 m)\<^sup>2) = - el22 m * el20 m * el00 m + el21 m * el10 m"
    and "el11 m * (1 - (el20 m)\<^sup>2) = - el21 m * el20 m * el10 m + el22 m * el00 m"
    and "el12 m * (1 - (el20 m)\<^sup>2) = - el22 m * el20 m * el10 m - el21 m * el00 m"
    and "el11 m = el00 m * el22 m - el02 m * el20 m"
    and "el12 m = el01 m * el20 m - el00 m * el21 m"
proof -
  define a b c d where "a = q_x q" and "b = q_y q" and "c = q_z q" and "d = q_w q"
  note qd = a_def b_def c_def d_def
  have n: "a\<^sup>2 + b\<^sup>2 + c\<^sup>2 + d\<^sup>2 = 1"
    using u by (simp add: length2_def qd power2_eq_square)
  have e: "el00 m = 1 - 2 * (b\<^sup>2 + c\<^sup>2)" "el01 m = 2 * (a * b - d * c)"
    "el02 m = 2 * (a * c + d * b)" "el10 m = 2 * (a * b + d * c)"
    "el11 m = 1 - 2 * (a\<^sup>2 + c\<^sup>2)" "el12 m = 2 * (b * c - d * a)"
    "el20 m = 2 * (a * c - d * b)" "el21 m = 2 * (b * c + d * a)"
    "el22 m = 1 - 2 * (a\<^sup>2 + b\<^sup>2)"
    unfolding m_def matrix_of_unit [OF u] qd by simp_all
  show "(el21 m)\<^sup>2 + (el22 m)\<^sup>2 = 1 - (el20 m)\<^sup>2"
    and "(el00 m)\<^sup>2 + (el10 m)\<^sup>2 = 1 - (el20 m)\<^sup>2"
    and "(el02 m)\<^sup>2 + (el01 m)\<^sup>2 = 1 - (el00 m)\<^sup>2"
    and "el01 m * (1 - (el20 m)\<^sup>2) = - el21 m * el20 m * el00 m - el22 m * el10 m"
    and "el02 m * (1 - (el20 m)\<^sup>2) = - el22 m * el20 m * el00 m + el21 m * el10 m"
    and "el11 m * (1 - (el20 m)\<^sup>2) = - el21 m * el20 m * el10 m + el22 m * el00 m"
    and "el12 m * (1 - (el20 m)\<^sup>2) = - el22 m * el20 m * el10 m - el21 m * el00 m"
    and "el11 m = el00 m * el22 m - el02 m * el20 m"
    and "el12 m = el01 m * el20 m - el00 m * el21 m"
    unfolding e using n by algebra+
qed

text \<open>
  The matrix of a unit quaternion is the matrix of the angles that \<open>getRPY\<close>
  reads from it: away from the singularity, where the three angles are
  determined, and at the singularity.
\<close>

lemma getRPY_matrix_regular:
  fixes q :: Quaternion
  assumes u: "length2 q = 1" and g: "\<bar>el20 (Matrix3x3_of q)\<bar> < 1"
  shows "(case getRPY (Matrix3x3_of q) of (roll, pitch, yaw) \<Rightarrow> rpyMatrix roll pitch yaw)
         = Matrix3x3_of q"
proof -
  define m where "m = Matrix3x3_of q"
  note f = unit_matrix_entries [OF u, folded m_def]
  from g have g': "\<bar>el20 m\<bar> < 1" by (simp add: m_def)
  define pitch where "pitch = - arcsin (el20 m)"
  define k where "k = cos pitch"
  define roll where "roll = atan2 (el21 m / k) (el22 m / k)"
  define yaw where "yaw = atan2 (el10 m / k) (el00 m / k)"
  have G: "getRPY m = (roll, pitch, yaw)"
    using g' by (simp add: getRPY_def Let_def pitch_def k_def roll_def yaw_def)
  have sp: "sin pitch = - el20 m"
    using g' by (simp add: pitch_def)
  have kpos: "0 < k"
    unfolding k_def pitch_def using g' by (simp add: cos_arcsin abs_square_less_1)
  have k2: "k\<^sup>2 = 1 - (el20 m)\<^sup>2"
    unfolding k_def pitch_def using g' by (simp add: cos_arcsin abs_square_le_1)
  have kk: "k * k = 1 - (el20 m)\<^sup>2" using k2 by (simp add: power2_eq_square)
  have kn: "k \<noteq> 0" using kpos by simp
  have "(el22 m / k)\<^sup>2 + (el21 m / k)\<^sup>2 = 1"
    using kpos f(1) k2 by (simp add: power_divide field_simps)
  then have cr: "cos roll = el22 m / k" and sr: "sin roll = el21 m / k"
    unfolding roll_def by (rule atan2_unit)+
  have "(el00 m / k)\<^sup>2 + (el10 m / k)\<^sup>2 = 1"
    using kpos f(2) k2 by (simp add: power_divide field_simps)
  then have cy: "cos yaw = el00 m / k" and sy: "sin yaw = el10 m / k"
    unfolding yaw_def by (rule atan2_unit)+
  have e01: "sin roll * sin pitch * cos yaw - cos roll * sin yaw = el01 m"
  proof -
    have "sin roll * sin pitch * cos yaw - cos roll * sin yaw =
          (- el21 m * el20 m * el00 m - el22 m * el10 m) / (k * k)"
      using kn by (simp add: sr sp cy cr sy field_simps)
    also have "\<dots> = el01 m" using kn f(4) by (intro quotient_eq) (simp_all add: kk)
    finally show ?thesis .
  qed
  have e02: "cos roll * sin pitch * cos yaw + sin roll * sin yaw = el02 m"
  proof -
    have "cos roll * sin pitch * cos yaw + sin roll * sin yaw =
          (- el22 m * el20 m * el00 m + el21 m * el10 m) / (k * k)"
      using kn by (simp add: sr sp cy cr sy field_simps)
    also have "\<dots> = el02 m" using kn f(5) by (intro quotient_eq) (simp_all add: kk)
    finally show ?thesis .
  qed
  have e11: "sin roll * sin pitch * sin yaw + cos roll * cos yaw = el11 m"
  proof -
    have "sin roll * sin pitch * sin yaw + cos roll * cos yaw =
          (- el21 m * el20 m * el10 m + el22 m * el00 m) / (k * k)"
      using kn by (simp add: sr sp cy cr sy field_simps)
    also have "\<dots> = el11 m" using kn f(6) by (intro quotient_eq) (simp_all add: kk)
    finally show ?thesis .
  qed
  have e12: "cos roll * sin pitch * sin yaw - sin roll * cos yaw = el12 m"
  proof -
    have "cos roll * sin pitch * sin yaw - sin roll * cos yaw =
          (- el22 m * el20 m * el10 m - el21 m * el00 m) / (k * k)"
      using kn by (simp add: sr sp cy cr sy field_simps)
    also have "\<dots> = el12 m" using kn f(7) by (intro quotient_eq) (simp_all add: kk)
    finally show ?thesis .
  qed
  have rest: "cos pitch * cos yaw = el00 m" "cos pitch * sin yaw = el10 m"
    "sin roll * cos pitch = el21 m" "cos roll * cos pitch = el22 m" "- sin pitch = el20 m"
    using kn by (simp_all add: cy sy sr cr sp k_def [symmetric])
  have "rpyMatrix roll pitch yaw = m"
    by (rule Matrix3x3.equality) (simp_all add: rpyMatrix_def e01 e02 e11 e12 rest)
  then show ?thesis
    by (simp add: m_def [symmetric] G)
qed



text \<open>Two unit quaternions with the same matrix are equal or opposite.\<close>

lemma same_matrix_sign:
  assumes up: "length2 p = 1" and uq: "length2 q = 1" and m: "Matrix3x3_of q = Matrix3x3_of p"
  shows "q = p \<or> q = \<lparr> q_x = - q_x p, q_y = - q_y p, q_z = - q_z p, q_w = - q_w p \<rparr>"
proof -
  define a b c d where "a = q_x p" and "b = q_y p" and "c = q_z p" and "d = q_w p"
  define a' b' c' d' where "a' = q_x q" and "b' = q_y q" and "c' = q_z q" and "d' = q_w q"
  note pd = a_def b_def c_def d_def and qd = a'_def b'_def c'_def d'_def
  have n: "a\<^sup>2 + b\<^sup>2 + c\<^sup>2 + d\<^sup>2 = 1" and n': "a'\<^sup>2 + b'\<^sup>2 + c'\<^sup>2 + d'\<^sup>2 = 1"
    using up uq by (simp_all add: length2_def pd qd power2_eq_square)
  from m have e:
    "b'\<^sup>2 + c'\<^sup>2 = b\<^sup>2 + c\<^sup>2" "a'\<^sup>2 + c'\<^sup>2 = a\<^sup>2 + c\<^sup>2" "a'\<^sup>2 + b'\<^sup>2 = a\<^sup>2 + b\<^sup>2"
    "a' * b' - d' * c' = a * b - d * c" "a' * b' + d' * c' = a * b + d * c"
    "a' * c' + d' * b' = a * c + d * b" "a' * c' - d' * b' = a * c - d * b"
    "b' * c' - d' * a' = b * c - d * a" "b' * c' + d' * a' = b * c + d * a"
    unfolding matrix_of_unit [OF up] matrix_of_unit [OF uq] pd qd by simp_all
  have sq: "a'\<^sup>2 = a\<^sup>2" "b'\<^sup>2 = b\<^sup>2" "c'\<^sup>2 = c\<^sup>2" "d'\<^sup>2 = d\<^sup>2"
    using e(1-3) n n' by linarith+
  have pr: "a' * b' = a * b" "d' * c' = d * c" "a' * c' = a * c" "d' * b' = d * b"
    "b' * c' = b * c" "d' * a' = d * a"
    using e(4-9) by linarith+
  have dot: "(a * a' + b * b' + c * c' + d * d')\<^sup>2 = 1"
  proof -
    have "(a * a' + b * b' + c * c' + d * d')\<^sup>2 =
          a\<^sup>2 * a'\<^sup>2 + b\<^sup>2 * b'\<^sup>2 + c\<^sup>2 * c'\<^sup>2 + d\<^sup>2 * d'\<^sup>2 +
          2 * ((a * b) * (a' * b') + (a * c) * (a' * c') + (d * a) * (d' * a') +
               (b * c) * (b' * c') + (d * b) * (d' * b') + (d * c) * (d' * c'))"
      by (simp add: power2_eq_square algebra_simps)
    also have "\<dots> = (a\<^sup>2 + b\<^sup>2 + c\<^sup>2 + d\<^sup>2)\<^sup>2"
      unfolding sq pr by (simp add: power2_eq_square algebra_simps)
    finally show ?thesis using n by simp
  qed
  then consider "a * a' + b * b' + c * c' + d * d' = 1" | "a * a' + b * b' + c * c' + d * d' = - 1"
    by (auto simp: power2_eq_1_iff)
  then show ?thesis
  proof cases
    case 1
    have "(a' - a)\<^sup>2 + (b' - b)\<^sup>2 + (c' - c)\<^sup>2 + (d' - d)\<^sup>2 =
          (a\<^sup>2 + b\<^sup>2 + c\<^sup>2 + d\<^sup>2) + (a'\<^sup>2 + b'\<^sup>2 + c'\<^sup>2 + d'\<^sup>2)
          - 2 * (a * a' + b * b' + c * c' + d * d')"
      by (simp add: power2_eq_square algebra_simps)
    also have "\<dots> = 0" using n n' 1 by simp
    finally have "a' - a = 0 \<and> b' - b = 0 \<and> c' - c = 0 \<and> d' - d = 0"
      by (rule four_squares_zero)
    then have "a' = a \<and> b' = b \<and> c' = c \<and> d' = d" by simp
    then have "q = p" unfolding pd qd by simp
    then show ?thesis ..
  next
    case 2
    have "(a' + a)\<^sup>2 + (b' + b)\<^sup>2 + (c' + c)\<^sup>2 + (d' + d)\<^sup>2 =
          (a\<^sup>2 + b\<^sup>2 + c\<^sup>2 + d\<^sup>2) + (a'\<^sup>2 + b'\<^sup>2 + c'\<^sup>2 + d'\<^sup>2)
          + 2 * (a * a' + b * b' + c * c' + d * d')"
      by (simp add: power2_eq_square algebra_simps)
    also have "\<dots> = 0" using n n' 2 by simp
    finally have "a' + a = 0 \<and> b' + b = 0 \<and> c' + c = 0 \<and> d' + d = 0"
      by (rule four_squares_zero)
    then have "a' = - a \<and> b' = - b \<and> c' = - c \<and> d' = - d" by linarith
    then have "q = \<lparr> q_x = - q_x p, q_y = - q_y p, q_z = - q_z p, q_w = - q_w p \<rparr>"
      unfolding pd qd by simp
    then show ?thesis ..
  qed
qed

subsection \<open>The round trip\<close>

lemma length2_permuteIn: "length2 (permuteIn q) = length2 q"
  by (simp add: length2_def permuteIn_def)

lemma toInternal_permuteIn:
  "toInternal q = (case getRPY (Matrix3x3_of (permuteIn q)) of (roll, pitch, yaw) \<Rightarrow> (- pitch, - yaw, roll))"
  by (simp add: toInternal_def permuteIn_def)

lemma toOutput_toInternal:
  "toOutput (toInternal q) =
     (case getRPY (Matrix3x3_of (permuteIn q)) of (roll, pitch, yaw) \<Rightarrow>
        (let Q = createQuaternionFromRPY roll pitch yaw
         in \<lparr> q_x = - q_y Q, q_y = - q_z Q, q_z = q_x Q, q_w = q_w Q \<rparr>))"
  by (simp add: toOutput_def toInternal_permuteIn split: prod.splits)



lemma rpy_of_unit_regular:
  assumes "length2 q = 1" and "\<not> atGimbalSingularity q"
    and "getRPY (Matrix3x3_of (permuteIn q)) = (roll, pitch, yaw)"
  shows "Matrix3x3_of (createQuaternionFromRPY roll pitch yaw) = Matrix3x3_of (permuteIn q)"
proof -
  have "length2 (permuteIn q) = 1"
    using assms(1) by (simp add: length2_permuteIn)
  moreover have "\<bar>el20 (Matrix3x3_of (permuteIn q))\<bar> < 1"
    using assms(2) by (simp add: atGimbalSingularity_def)
  ultimately have "(case getRPY (Matrix3x3_of (permuteIn q)) of
      (roll, pitch, yaw) \<Rightarrow> rpyMatrix roll pitch yaw) = Matrix3x3_of (permuteIn q)"
    by (rule getRPY_matrix_regular)
  then show ?thesis
    by (simp add: assms(3) rpy_matrix)
qed

lemma roundtrip_sign:
  fixes q :: Quaternion
  assumes u: "length2 q = 1" and g: "\<not> atGimbalSingularity q"
  shows "toOutput (toInternal q) = q \<or> toOutput (toInternal q) = negated q"
proof -
  define p where "p = permuteIn q"
  obtain roll pitch yaw where G: "getRPY (Matrix3x3_of (permuteIn q)) = (roll, pitch, yaw)"
    by (cases "getRPY (Matrix3x3_of (permuteIn q))") auto
  define Q where "Q = createQuaternionFromRPY roll pitch yaw"
  have up: "length2 p = 1" using u by (simp add: p_def length2_permuteIn)
  have "Matrix3x3_of Q = Matrix3x3_of p"
    unfolding Q_def p_def using u g G by (rule rpy_of_unit_regular)
  moreover have "length2 Q = 1" by (simp add: Q_def length2_rpy)
  ultimately have "Q = p \<or> Q = \<lparr> q_x = - q_x p, q_y = - q_y p, q_z = - q_z p, q_w = - q_w p \<rparr>"
    using up by (intro same_matrix_sign)
  moreover have "toOutput (toInternal q) = \<lparr> q_x = - q_y Q, q_y = - q_z Q, q_z = q_x Q, q_w = q_w Q \<rparr>"
    by (simp add: toOutput_toInternal G Q_def Let_def)
  ultimately show ?thesis
    by (auto simp: p_def permuteIn_def negated_def)
qed


text \<open>
  C4, as the code has it, in exact arithmetic.  For a unit quaternion \<open>q\<close>
  whose pitch is not at the singularity, the inbound conversion followed by
  the outbound conversion yields \<open>q\<close> or \<open>negated q\<close>, the other quaternion
  of the same orientation: the three angles do not keep the sign of the
  quaternion.
\<close>

theorem adapter_roundtrip_up_to_sign:
  fixes q :: Quaternion
  assumes "length2 q = 1" and "\<not> atGimbalSingularity q"
  shows "toOutput (toInternal q) = q \<or> toOutput (toInternal q) = negated q"
  using assms by (rule roundtrip_sign)

text \<open>The theorem at the unit quaternion with the four components 1/2.\<close>

theorem adapter_roundtrip_up_to_sign_witness:
  "length2 \<lparr> q_x = 1/2, q_y = 1/2, q_z = 1/2, q_w = 1/2 \<rparr> = 1 \<and>
   \<not> atGimbalSingularity \<lparr> q_x = 1/2, q_y = 1/2, q_z = 1/2, q_w = 1/2 \<rparr> \<and>
   (toOutput (toInternal \<lparr> q_x = 1/2, q_y = 1/2, q_z = 1/2, q_w = 1/2 \<rparr>)
      = \<lparr> q_x = 1/2, q_y = 1/2, q_z = 1/2, q_w = 1/2 \<rparr> \<or>
    toOutput (toInternal \<lparr> q_x = 1/2, q_y = 1/2, q_z = 1/2, q_w = 1/2 \<rparr>)
      = negated \<lparr> q_x = 1/2, q_y = 1/2, q_z = 1/2, q_w = 1/2 \<rparr>)"
proof -
  have u: "length2 \<lparr> q_x = 1/2, q_y = 1/2, q_z = 1/2, q_w = 1/2 \<rparr> = 1"
    by (simp add: length2_def)
  have g: "\<not> atGimbalSingularity \<lparr> q_x = 1/2, q_y = 1/2, q_z = 1/2, q_w = 1/2 \<rparr>"
    by (simp add: atGimbalSingularity_def permuteIn_def Matrix3x3_of_def Let_def length2_def)
  show ?thesis
    using u g adapter_roundtrip_up_to_sign [OF u g] by blast
qed

text \<open>
  C4 as the specification states it fails at the unit quaternion
  \<open>(0, 0, 0, -1)\<close>, whose pitch is 0: the round trip yields \<open>(0, 0, 0, 1)\<close>,
  which differs from the input by 2 in the last component.  Every operation
  of the round trip is exact at this input.
\<close>

theorem adapter_roundtrip_counterexample:
  "length2 \<lparr> q_x = 0, q_y = 0, q_z = 0, q_w = - 1 \<rparr> = 1 \<and>
   \<not> atGimbalSingularity \<lparr> q_x = 0, q_y = 0, q_z = 0, q_w = - 1 \<rparr> \<and>
   toOutput (toInternal \<lparr> q_x = 0, q_y = 0, q_z = 0, q_w = - 1 \<rparr>)
     = \<lparr> q_x = 0, q_y = 0, q_z = 0, q_w = 1 \<rparr> \<and>
   \<bar>q_w (toOutput (toInternal \<lparr> q_x = 0, q_y = 0, q_z = 0, q_w = - 1 \<rparr>))
      - q_w \<lparr> q_x = 0, q_y = 0, q_z = 0, q_w = - 1 \<rparr>\<bar> = 2"
  by (simp add: length2_def atGimbalSingularity_def permuteIn_def Matrix3x3_of_def Let_def
      toOutput_def toInternal_def getRPY_def atan2_def createQuaternionFromRPY_def)

section \<open>The pose composer\<close>











section \<open>The adapter at the callbacks and the publishers\<close>










end
